theory Spec2Isabelle
  imports Complex_Main "HOL-Library.AList"
begin

section \<open>JavaScript values and strings\<close>

text \<open>
  The query pipeline of the repository lives in two places: the Gemini service
  (\<open>processQueryWithGemini\<close>, \<open>generateRecommendedQuestions\<close>, \<open>estimateTokens\<close>) and
  the query routes (the handlers of \<open>POST /api/query\<close> and \<open>POST /api/query/batch\<close>).
  Both are embedded here as HOL functions over an explicit world state.

  A JavaScript value is a JSON value or \<open>undefined\<close>. An array carries, next to its
  elements, the named properties that an assignment \<open>arr.answer = ...\<close> adds to it.
  Numbers are rationals: the code never computes with the numbers it receives from the
  model, it only tests them for truthiness and passes them on.
  Strings are lists of characters; a character stands for a code unit below 256.
\<close>

datatype jsval =
    JUndefined
  | JNull
  | JBool bool
  | JNum rat
  | JStr string
  | JArr "jsval list" "(string \<times> jsval) list"
  | JObj "(string \<times> jsval) list"

text \<open>Truthiness, as \<open>!x\<close>, \<open>x || y\<close> and \<open>if (x)\<close> see it.\<close>

fun truthy :: "jsval \<Rightarrow> bool" where
  "truthy JUndefined = False"
| "truthy JNull = False"
| "truthy (JBool b) = b"
| "truthy (JNum r) = (r \<noteq> 0)"
| "truthy (JStr s) = (s \<noteq> [])"
| "truthy (JArr xs ps) = True"
| "truthy (JObj kvs) = True"

definition js_or :: "jsval \<Rightarrow> jsval \<Rightarrow> jsval" where
  "js_or a b = (if truthy a then a else b)"

definition obj_get :: "(string \<times> jsval) list \<Rightarrow> string \<Rightarrow> jsval" where
  "obj_get kvs k = (case map_of kvs k of None \<Rightarrow> JUndefined | Some v \<Rightarrow> v)"

text \<open>
  Errors are represented by their \<open>message\<close>, the only part of an error object the
  code ever reads. Reading a property of \<open>null\<close> or \<open>undefined\<close> throws a TypeError;
  reading one of the property names used by the code from a number, a boolean or a
  string gives \<open>undefined\<close>.
\<close>

definition null_read_message :: "string \<Rightarrow> string" where
  "null_read_message k = ''Cannot read properties of null (reading '' @ [CHR 0x27] @ k @ [CHR 0x27] @ '')''"

definition undefined_read_message :: "string \<Rightarrow> string" where
  "undefined_read_message k =
     ''Cannot read properties of undefined (reading '' @ [CHR 0x27] @ k @ [CHR 0x27] @ '')''"

fun get_prop :: "jsval \<Rightarrow> string \<Rightarrow> string + jsval" where
  "get_prop JUndefined k = Inl (undefined_read_message k)"
| "get_prop JNull k = Inl (null_read_message k)"
| "get_prop (JObj kvs) k = Inr (obj_get kvs k)"
| "get_prop (JArr xs ps) k = Inr (obj_get ps k)"
| "get_prop (JBool b) k = Inr JUndefined"
| "get_prop (JNum r) k = Inr JUndefined"
| "get_prop (JStr s) k = Inr JUndefined"

text \<open>
  Assignment to a property. The module is a CommonJS module without a strict-mode
  directive, so an assignment to a property of a number, boolean or string is
  silently dropped.
\<close>

fun set_prop :: "jsval \<Rightarrow> string \<Rightarrow> jsval \<Rightarrow> string + jsval" where
  "set_prop JUndefined k v = Inl (''Cannot set properties of undefined (setting '' @ [CHR 0x27] @ k @ [CHR 0x27] @ '')'')"
| "set_prop JNull k v = Inl (''Cannot set properties of null (setting '' @ [CHR 0x27] @ k @ [CHR 0x27] @ '')'')"
| "set_prop (JObj kvs) k v = Inr (JObj (AList.update k v kvs))"
| "set_prop (JArr xs ps) k v = Inr (JArr xs (AList.update k v ps))"
| "set_prop (JBool b) k v = Inr (JBool b)"
| "set_prop (JNum r) k v = Inr (JNum r)"
| "set_prop (JStr s) k v = Inr (JStr s)"

text \<open>
  The named own property \<open>k\<close> of the object \<open>{...x}\<close>: spreading a number or a boolean
  gives no property, spreading a string gives index properties only.
\<close>

fun spread_get :: "jsval \<Rightarrow> string \<Rightarrow> jsval" where
  "spread_get (JObj kvs) k = obj_get kvs k"
| "spread_get (JArr xs ps) k = obj_get ps k"
| "spread_get v k = JUndefined"

subsection \<open>String operations\<close>

definition starts_with :: "string \<Rightarrow> string \<Rightarrow> bool" where
  "starts_with p s = (take (length p) s = p)"

text \<open>\<open>s.includes(sub)\<close>\<close>

fun includes_str :: "string \<Rightarrow> string \<Rightarrow> bool" where
  "includes_str [] sub = (sub = [])"
| "includes_str (c # cs) sub = (starts_with sub (c # cs) \<or> includes_str cs sub)"

text \<open>
  \<open>s.trim()\<close> strips white space and line terminators. Below 256 these are tab, line
  feed, vertical tab, form feed, carriage return, space and the no-break space.
\<close>

definition js_space :: "char \<Rightarrow> bool" where
  "js_space c =
     (c \<in> {CHR 0x09, CHR 0x0A, CHR 0x0B, CHR 0x0C, CHR 0x0D, CHR 0x20, CHR 0xA0})"

definition js_trim :: "string \<Rightarrow> string" where
  "js_trim s = rev (dropWhile js_space (rev (dropWhile js_space s)))"

definition nl :: string where
  "nl = [CHR 0x0A]"

definition fence :: string where
  "fence = [CHR 0x60, CHR 0x60, CHR 0x60]"

text \<open>
  \<open>s.replace(/```json\n?|\n?```/g, '')\<close>: scanning from the left, at each position the
  first alternative (the fence followed by \<open>json\<close> and an optional newline) is tried
  before the second (an optional newline followed by the fence); a match is removed
  and scanning resumes behind it.
\<close>

function strip_fences :: "string \<Rightarrow> string" where
  "strip_fences s =
     (if s = [] then []
      else if starts_with (fence @ ''json'' @ nl) s then strip_fences (drop 8 s)
      else if starts_with (fence @ ''json'') s then strip_fences (drop 7 s)
      else if starts_with (nl @ fence) s then strip_fences (drop 4 s)
      else if starts_with fence s then strip_fences (drop 3 s)
      else hd s # strip_fences (tl s))"
  by pat_completeness auto
termination
  by (relation "measure length") (auto simp: less_Suc_eq_le intro: diff_less)

declare strip_fences.simps [simp del]

text \<open>\<open>estimateTokens\<close>: \<open>Math.ceil(text.length / 4)\<close>.\<close>

definition estimateTokens :: "string \<Rightarrow> nat" where
  "estimateTokens text = (length text + 3) div 4"

section \<open>The environment and the world\<close>

text \<open>
  Everything the pipeline reaches outside the repository is a field of the environment:
  \<^item> \<open>api_key_set\<close>: whether \<open>process.env.GEMINI_API_KEY\<close> is set;
  \<^item> \<open>generateContent\<close>: the generative provider. Its outcome depends on the number of
    calls made before and on the prompt; it is the time the call takes in milliseconds
    and either the text of the response (\<open>Inr\<close>) or the message of the error thrown
    (\<open>Inl\<close>) by \<open>model.generateContent\<close>, \<open>result.response\<close> or \<open>response.text()\<close>;
  \<^item> \<open>json_parse\<close>: \<open>JSON.parse\<close>, with \<open>None\<close> for a SyntaxError;
  \<^item> \<open>string_of\<close>: the string conversion a template literal applies to a value that
    is not a string; it throws a TypeError (\<open>Inl\<close>) for an object that cannot be
    converted to a primitive value, such as one with an own property \<open>toString\<close>;
  \<^item> \<open>findById\<close>: \<open>Document.findById\<close>, which throws (\<open>Inl\<close>), finds nothing or
    finds a document;
  \<^item> \<open>validation_message\<close>: the message of the error that \<open>queryRecord.save()\<close>
    throws for a record that the Query schema rejects;
  \<^item> \<open>save_query\<close>: what \<open>queryRecord.save()\<close> does with a record that the checks
    of the schema modelled below let pass, with \<open>Some\<close> message when casting a value
    of another type or the database fails.
\<close>

record document =
  doc_id :: string
  originalName :: string
  extractedText :: string

record query_record =
  q_documentId :: string
  q_queryText :: jsval
  q_response :: jsval
  q_confidence :: jsval
  q_processingTime :: int

record env =
  api_key_set :: bool
  generateContent :: "nat \<Rightarrow> string \<Rightarrow> nat \<times> (string + string)"
  json_parse :: "string \<Rightarrow> jsval option"
  string_of :: "jsval \<Rightarrow> string + string"
  findById :: "jsval \<Rightarrow> string + document option"
  validation_message :: "query_record \<Rightarrow> string"
  save_query :: "query_record \<Rightarrow> string option"

text \<open>
  The world is what the code changes or observes over time: the module variable
  \<open>model\<close> (set or not), the clock read by \<open>Date.now()\<close>, the prompts sent to the
  provider so far, the delays waited with \<open>setTimeout\<close>, and the saved query records.
  Time passes only inside a provider call and inside a wait.
\<close>

record world =
  model_ready :: bool
  clock :: int
  prompts :: "string list"
  sleeps :: "nat list"
  saved :: "query_record list"

section \<open>The Gemini service\<close>

record ai_response =
  answer :: jsval
  canAnswer :: jsval
  confidence :: jsval
  reasoning :: jsval
  processingTime :: int
  tokensUsed :: nat

definition bind_err :: "'e + 'a \<Rightarrow> ('a \<Rightarrow> 'e + 'b) \<Rightarrow> 'e + 'b" where
  "bind_err m f = (case m of Inl e \<Rightarrow> Inl e | Inr x \<Rightarrow> f x)"

definition initializeGemini :: "env \<Rightarrow> world \<Rightarrow> (string + unit) \<times> world" where
  "initializeGemini env w =
     (if \<not> api_key_set env
      then (Inl ''GEMINI_API_KEY is not set in environment variables'', w)
      else (Inr (), w\<lparr>model_ready := True\<rparr>))"

text \<open>\<open>if (!model) { initializeGemini(); }\<close>\<close>

definition ensure_model :: "env \<Rightarrow> world \<Rightarrow> (string + unit) \<times> world" where
  "ensure_model env w = (if \<not> model_ready w then initializeGemini env w else (Inr (), w))"

text \<open>
  The conversion of a value inside a template literal, \<open>${userQuery}\<close> and
  \<open>${query}\<close>: a string is taken as it is, any other value is converted and the
  conversion may throw.
\<close>

definition template_str :: "env \<Rightarrow> jsval \<Rightarrow> string + string" where
  "template_str env v = (case v of JStr s \<Rightarrow> Inr s | _ \<Rightarrow> string_of env v)"

text \<open>The prompt, from the document text and the question as converted to a string.\<close>

definition build_prompt :: "string \<Rightarrow> string \<Rightarrow> string" where
  \<open>build_prompt documentText question =
     ''Document: '' @ take 2000 documentText
       @ (if length documentText > 2000 then ''...'' else []) @ nl @ nl
       @ ''Question: '' @ question @ nl @ nl
       @ ''Answer this question based on the document content. Respond in JSON format:'' @ nl
       @ ''{"answer": "your answer", "canAnswer": true/false, "confidence": 0.0-1.0, "reasoning": "brief explanation"}''\<close>

text \<open>
  The retry loop \<open>while (retries > 0)\<close>. A successful call leaves the loop with the
  response text; a failed call is repeated after a wait of 2000 ms when its message
  includes \<open>overloaded\<close> and more than one retry is left, and is thrown again
  otherwise. A loop that ends because \<open>retries\<close> is 0 leaves \<open>responseText\<close>
  undefined (\<open>None\<close>).
\<close>

fun retry_loop :: "env \<Rightarrow> string \<Rightarrow> nat \<Rightarrow> world \<Rightarrow> (string + string option) \<times> world" where
  "retry_loop env prompt 0 w = (Inr None, w)"
| "retry_loop env prompt (Suc n) w =
     (case generateContent env (length (prompts w)) prompt of
        (latency, outcome) \<Rightarrow>
          let w1 = w\<lparr>prompts := prompts w @ [prompt], clock := clock w + int latency\<rparr> in
          (case outcome of
             Inr text \<Rightarrow> (Inr (Some text), w1)
           | Inl msg \<Rightarrow>
               if includes_str msg ''overloaded'' \<and> Suc n > 1
               then retry_loop env prompt n
                      (w1\<lparr>sleeps := sleeps w1 @ [2000], clock := clock w1 + 2000\<rparr>)
               else (Inl msg, w1)))"

text \<open>The value of \<open>responseText\<close> and its conversion in \<open>prompt + responseText\<close>.\<close>

definition text_val :: "string option \<Rightarrow> jsval" where
  "text_val responseText = (case responseText of None \<Rightarrow> JUndefined | Some t \<Rightarrow> JStr t)"

definition text_str :: "string option \<Rightarrow> string" where
  "text_str responseText = (case responseText of None \<Rightarrow> ''undefined'' | Some t \<Rightarrow> t)"

definition fallback_response :: "jsval \<Rightarrow> jsval" where
  "fallback_response a =
     JObj [(''answer'', a), (''canAnswer'', JBool True), (''confidence'', JNum (7 / 10)),
           (''reasoning'', JStr ''Response generated but not in expected JSON format'')]"

text \<open>
  The inner \<open>try\<close>/\<open>catch\<close> around \<open>JSON.parse\<close>: calling \<open>replace\<close> on an undefined
  \<open>responseText\<close> throws inside the \<open>try\<close>, as a text that does not parse does.
\<close>

definition decode_response :: "env \<Rightarrow> string option \<Rightarrow> jsval" where
  "decode_response env responseText =
     (case responseText of
        None \<Rightarrow> fallback_response JUndefined
      | Some t \<Rightarrow>
          (case json_parse env (js_trim (strip_fences t)) of
             Some v \<Rightarrow> v
           | None \<Rightarrow> fallback_response (JStr t)))"

text \<open>The four assignments under the comment "Ensure required fields exist".\<close>

definition ensure_fields :: "jsval \<Rightarrow> jsval \<Rightarrow> string + jsval" where
  "ensure_fields parsedResponse responseText =
     bind_err (get_prop parsedResponse ''answer'') (\<lambda>a.
     bind_err (set_prop parsedResponse ''answer'' (js_or a responseText)) (\<lambda>p1.
     bind_err (get_prop p1 ''canAnswer'') (\<lambda>c.
     bind_err (set_prop p1 ''canAnswer'' (if c \<noteq> JUndefined then c else JBool True)) (\<lambda>p2.
     bind_err (get_prop p2 ''confidence'') (\<lambda>f.
     bind_err (set_prop p2 ''confidence'' (js_or f (JNum (7 / 10)))) (\<lambda>p3.
     bind_err (get_prop p3 ''reasoning'') (\<lambda>r.
     set_prop p3 ''reasoning'' (js_or r (JStr ''Analysis completed'')))))))))"

text \<open>
  The body of the outer \<open>try\<close> of \<open>processQueryWithGemini\<close>. Building the prompt
  converts the question to a string, which throws before any provider call when the
  question cannot be converted.
\<close>

definition query_body :: "env \<Rightarrow> string \<Rightarrow> jsval \<Rightarrow> world \<Rightarrow> (string + ai_response) \<times> world" where
  "query_body env documentText userQuery w =
     (case ensure_model env w of
        (Inl e, w0) \<Rightarrow> (Inl e, w0)
      | (Inr u, w0) \<Rightarrow>
          let startTime = clock w0 in
          (case template_str env userQuery of
             Inl e \<Rightarrow> (Inl e, w0)
           | Inr question \<Rightarrow>
               let prompt = build_prompt documentText question in
               (case retry_loop env prompt 3 w0 of
                  (Inl e, w1) \<Rightarrow> (Inl e, w1)
                | (Inr responseText, w1) \<Rightarrow>
                    let elapsed = clock w1 - startTime;
                        parsedResponse = decode_response env responseText in
                    (case ensure_fields parsedResponse (text_val responseText) of
                       Inl e \<Rightarrow> (Inl e, w1)
                     | Inr p \<Rightarrow>
                         (Inr \<lparr>answer = spread_get p ''answer'',
                               canAnswer = spread_get p ''canAnswer'',
                               confidence = spread_get p ''confidence'',
                               reasoning = spread_get p ''reasoning'',
                               processingTime = elapsed,
                               tokensUsed = estimateTokens (prompt @ text_str responseText)\<rparr>,
                          w1)))))"

text \<open>
  The fallback object the outer \<open>catch\<close> returns for an overloaded provider; its
  answer is a fixed text around the question as converted to a string.
\<close>

definition overload_answer :: "string \<Rightarrow> string" where
  \<open>overload_answer question =
     ''I apologize, but the AI service is currently overloaded. However, I can see that you're asking: "''
       @ question
       @ ''". Please try again in a few moments, or try rephrasing your question. The document appears to contain relevant information that I could analyze once the service is available.''\<close>

definition overload_fallback :: "string \<Rightarrow> world \<Rightarrow> ai_response" where
  "overload_fallback question w =
     \<lparr>answer = JStr (overload_answer question),
      canAnswer = JBool False,
      confidence = JNum 0,
      reasoning = JStr ''Gemini API is temporarily overloaded'',
      processingTime = clock w - (clock w - 1000),
      tokensUsed = 0\<rparr>"

text \<open>
  The outer \<open>catch\<close>: the message of the caught error decides, in this order. An
  error thrown while the fallback object is built leaves the \<open>catch\<close> as it is.
\<close>

definition catch_gemini :: "env \<Rightarrow> jsval \<Rightarrow> string \<Rightarrow> world \<Rightarrow> string + ai_response" where
  "catch_gemini env userQuery msg w =
     (if includes_str msg ''API_KEY''
      then Inl ''Invalid Gemini API key. Please check your configuration.''
      else if includes_str msg ''quota''
      then Inl ''Gemini API quota exceeded. Please try again later.''
      else if includes_str msg ''SAFETY''
      then Inl ''Content was blocked by Gemini safety filters. Please try a different query.''
      else if includes_str msg ''overloaded''
      then (case template_str env userQuery of
              Inl e \<Rightarrow> Inl e
            | Inr question \<Rightarrow> Inr (overload_fallback question w))
      else Inl (''Gemini processing failed: '' @ msg))"

definition processQueryWithGemini ::
  "env \<Rightarrow> string \<Rightarrow> jsval \<Rightarrow> world \<Rightarrow> (string + ai_response) \<times> world" where
  "processQueryWithGemini env documentText userQuery w =
     (case query_body env documentText userQuery w of
        (Inr r, w1) \<Rightarrow> (Inr r, w1)
      | (Inl msg, w1) \<Rightarrow> (catch_gemini env userQuery msg w1, w1))"

subsection \<open>Recommended questions\<close>

definition default_questions :: jsval where
  "default_questions =
     JArr [JStr ''What is the main topic of this document?'',
           JStr ''Can you summarize the key points?'',
           JStr ''What are the most important findings?''] []"

definition questions_prompt :: "string \<Rightarrow> string" where
  \<open>questions_prompt documentText =
     ''Based on this document excerpt: "'' @ take 1000 documentText @ ''"'' @ nl @ nl
       @ ''Generate 3 relevant questions that would help someone understand this document better. Respond in JSON format:'' @ nl
       @ ''{"questions": ["question 1", "question 2", "question 3"]}''\<close>

text \<open>The inner \<open>try\<close>/\<open>catch\<close>: parsing, and reading \<open>parsed.questions\<close>.\<close>

definition questions_of_text :: "env \<Rightarrow> string \<Rightarrow> jsval" where
  "questions_of_text env responseText =
     (case json_parse env (js_trim (strip_fences responseText)) of
        None \<Rightarrow> default_questions
      | Some parsed \<Rightarrow>
          (case get_prop parsed ''questions'' of
             Inl e \<Rightarrow> default_questions
           | Inr q \<Rightarrow> js_or q default_questions))"

text \<open>The body of the outer \<open>try\<close> of \<open>generateRecommendedQuestions\<close>.\<close>

definition questions_body :: "env \<Rightarrow> string \<Rightarrow> world \<Rightarrow> (string + jsval) \<times> world" where
  "questions_body env documentText w =
     (case ensure_model env w of
        (Inl e, w0) \<Rightarrow> (Inl e, w0)
      | (Inr u, w0) \<Rightarrow>
          let prompt = questions_prompt documentText in
          (case generateContent env (length (prompts w0)) prompt of
             (latency, outcome) \<Rightarrow>
               let w1 = w0\<lparr>prompts := prompts w0 @ [prompt], clock := clock w0 + int latency\<rparr> in
               (case outcome of
                  Inl e \<Rightarrow> (Inl e, w1)
                | Inr responseText \<Rightarrow> (Inr (questions_of_text env responseText), w1))))"

definition generateRecommendedQuestions :: "env \<Rightarrow> string \<Rightarrow> world \<Rightarrow> (string + jsval) \<times> world" where
  "generateRecommendedQuestions env documentText w =
     (case questions_body env documentText w of
        (Inr qs, w1) \<Rightarrow> (Inr qs, w1)
      | (Inl e, w1) \<Rightarrow> (Inr default_questions, w1))"

section \<open>The query routes\<close>

text \<open>
  A handler takes the fields of the request body and answers with a response. The
  identifier and the creation date that Mongoose generates for a saved record are not
  part of the model.
\<close>

record query_payload =
  p_documentName :: string
  p_queryText :: jsval
  p_answer :: jsval
  p_canAnswer :: jsval
  p_confidence :: jsval
  p_reasoning :: jsval
  p_processingTime :: int
  p_tokensUsed :: nat

datatype batch_item =
    Success jsval jsval jsval
  | Failure jsval string

datatype response =
    ErrorJson nat string "string option"
  | QueryJson query_payload
  | BatchJson string "batch_item list"

fun is_array :: "jsval \<Rightarrow> bool" where
  "is_array (JArr xs ps) = True"
| "is_array v = False"

fun elements :: "jsval \<Rightarrow> jsval list" where
  "elements (JArr xs ps) = xs"
| "elements v = []"

subsection \<open>Saving a query record\<close>

text \<open>
  The Query schema: \<open>queryText\<close> and \<open>response\<close> are required strings, which
  \<open>undefined\<close>, \<open>null\<close> and the empty string are not, and \<open>confidence\<close> is a number
  between 0 and 1. \<open>queryRecord.save()\<close> throws a validation error for a record that
  fails one of these checks and hands every other record on.
\<close>

definition blank_value :: "jsval \<Rightarrow> bool" where
  "blank_value v = (v = JUndefined \<or> v = JNull \<or> v = JStr [])"

fun out_of_range :: "jsval \<Rightarrow> bool" where
  "out_of_range (JNum r) = (r < 0 \<or> 1 < r)"
| "out_of_range v = False"

definition schema_rejects :: "query_record \<Rightarrow> bool" where
  "schema_rejects r =
     (blank_value (q_queryText r) \<or> blank_value (q_response r)
      \<or> out_of_range (q_confidence r))"

definition save_record :: "env \<Rightarrow> query_record \<Rightarrow> string option" where
  "save_record env r =
     (if schema_rejects r then Some (validation_message env r) else save_query env r)"

subsection \<open>\<open>POST /api/query\<close>\<close>

text \<open>The \<open>catch\<close> of the handler.\<close>

definition catch_query :: "string \<Rightarrow> response" where
  "catch_query msg =
     (if includes_str msg ''Gemini''
      then ErrorJson 503 ''AI service unavailable'' (Some msg)
      else ErrorJson 500 ''Query processing failed'' (Some msg))"

text \<open>
  \<open>query.trim()\<close> on a truthy value that is not a string throws inside the \<open>try\<close>.
\<close>

definition query_handler :: "env \<Rightarrow> jsval \<Rightarrow> jsval \<Rightarrow> world \<Rightarrow> response \<times> world" where
  "query_handler env documentId query w =
     (if \<not> truthy documentId \<or> \<not> truthy query
      then (ErrorJson 400 ''Missing required fields''
              (Some ''Both documentId and query are required''), w)
      else
        (case query of
           JStr q \<Rightarrow>
             if length (js_trim q) < 3
             then (ErrorJson 400 ''Invalid query''
                     (Some ''Query must be at least 3 characters long''), w)
             else
               (case findById env documentId of
                  Inl e \<Rightarrow> (catch_query e, w)
                | Inr None \<Rightarrow>
                    (ErrorJson 404 ''Document not found''
                       (Some ''The specified document does not exist''), w)
                | Inr (Some doc) \<Rightarrow>
                    if extractedText doc = [] \<or> length (js_trim (extractedText doc)) = 0
                    then (ErrorJson 400 ''No text content''
                            (Some ''The document has no extractable text content''), w)
                    else
                      let startTime = clock w in
                      (case processQueryWithGemini env (extractedText doc) query w of
                         (Inl e, w1) \<Rightarrow> (catch_query e, w1)
                       | (Inr ai, w1) \<Rightarrow>
                           let elapsed = clock w1 - startTime;
                               queryRecord =
                                 \<lparr>q_documentId = doc_id doc, q_queryText = query,
                                  q_response = answer ai,
                                  q_confidence = js_or (confidence ai) (JNum (7 / 10)),
                                  q_processingTime = elapsed\<rparr> in
                           (case save_record env queryRecord of
                              Some e \<Rightarrow> (catch_query e, w1)
                            | None \<Rightarrow>
                                (QueryJson
                                   \<lparr>p_documentName = originalName doc, p_queryText = query,
                                    p_answer = answer ai, p_canAnswer = canAnswer ai,
                                    p_confidence = confidence ai, p_reasoning = reasoning ai,
                                    p_processingTime = elapsed, p_tokensUsed = tokensUsed ai\<rparr>,
                                 w1\<lparr>saved := saved w1 @ [queryRecord]\<rparr>))))
         | _ \<Rightarrow> (catch_query ''query.trim is not a function'', w)))"

subsection \<open>\<open>POST /api/query/batch\<close>\<close>

text \<open>
  The \<open>catch\<close> inside the loop: it logs the query in a template literal and pushes
  a failure entry. When the query cannot be converted to a string, the log line throws,
  no entry is pushed and the error leaves the loop.
\<close>

definition catch_item :: "env \<Rightarrow> jsval \<Rightarrow> string \<Rightarrow> string + batch_item" where
  "catch_item env query e =
     (case template_str env query of
        Inl te \<Rightarrow> Inl te
      | Inr logged \<Rightarrow> Inr (Failure query e))"

text \<open>The body of the loop over the queries, with its own \<open>try\<close>/\<open>catch\<close>.\<close>

definition process_one ::
  "env \<Rightarrow> document \<Rightarrow> jsval \<Rightarrow> world \<Rightarrow> (string + batch_item) \<times> world" where
  "process_one env doc query w =
     (case processQueryWithGemini env (extractedText doc) query w of
        (Inl e, w1) \<Rightarrow> (catch_item env query e, w1)
      | (Inr ai, w1) \<Rightarrow>
          let queryRecord =
                \<lparr>q_documentId = doc_id doc, q_queryText = query, q_response = answer ai,
                 q_confidence = js_or (confidence ai) (JNum (7 / 10)),
                 q_processingTime = processingTime ai\<rparr> in
          (case save_record env queryRecord of
             Some e \<Rightarrow> (catch_item env query e, w1)
           | None \<Rightarrow>
               (Inr (Success query (answer ai) (confidence ai)),
                w1\<lparr>saved := saved w1 @ [queryRecord]\<rparr>)))"

text \<open>
  \<open>for (const query of queries)\<close>, pushing one entry to \<open>results\<close> per query; an
  error that leaves the body of the loop ends the loop.
\<close>

fun process_queries ::
  "env \<Rightarrow> document \<Rightarrow> jsval list \<Rightarrow> batch_item list \<Rightarrow> world
     \<Rightarrow> (string + batch_item list) \<times> world" where
  "process_queries env doc [] results w = (Inr results, w)"
| "process_queries env doc (query # queries) results w =
     (case process_one env doc query w of
        (Inl e, w1) \<Rightarrow> (Inl e, w1)
      | (Inr r, w1) \<Rightarrow> process_queries env doc queries (results @ [r]) w1)"

text \<open>
  The handler; an error that leaves the loop, like one thrown by the document
  lookup, is answered by the outer \<open>catch\<close> with status 500.
\<close>

definition batch_handler :: "env \<Rightarrow> jsval \<Rightarrow> jsval \<Rightarrow> world \<Rightarrow> response \<times> world" where
  "batch_handler env documentId queries w =
     (if \<not> truthy documentId \<or> \<not> truthy queries \<or> \<not> is_array queries
      then (ErrorJson 400 ''Invalid input''
              (Some ''documentId and queries array are required''), w)
      else if length (elements queries) = 0 \<or> length (elements queries) > 10
      then (ErrorJson 400 ''Invalid query count''
              (Some ''Please provide between 1 and 10 queries''), w)
      else
        (case findById env documentId of
           Inl e \<Rightarrow> (ErrorJson 500 ''Batch processing failed'' (Some e), w)
         | Inr None \<Rightarrow> (ErrorJson 404 ''Document not found'' None, w)
         | Inr (Some doc) \<Rightarrow>
             (case process_queries env doc (elements queries) [] w of
                (Inl e, w1) \<Rightarrow> (ErrorJson 500 ''Batch processing failed'' (Some e), w1)
              | (Inr results, w1) \<Rightarrow> (BatchJson (originalName doc) results, w1))))"

section \<open>Failure classes and example environments\<close>

text \<open>
  A provider failure counts as a transient overload when the outer \<open>catch\<close> of
  \<open>processQueryWithGemini\<close> treats it as one: its message reaches the branch for
  \<open>overloaded\<close>, so it includes that word and none of the words tested before it.
\<close>

definition transient_overload :: "string \<Rightarrow> bool" where
  "transient_overload msg =
     (includes_str msg ''overloaded'' \<and> \<not> includes_str msg ''API_KEY''
      \<and> \<not> includes_str msg ''quota'' \<and> \<not> includes_str msg ''SAFETY'')"

text \<open>
  The examples run the code in a small environment: the provider follows a script of
  outcomes, one per call; \<open>parse_table\<close> lists the values of \<open>JSON.parse\<close> at the
  structured texts the examples use and rejects every other text (the examples give
  it no other text that \<open>JSON.parse\<close> accepts); \<open>convert_table\<close> does the same for
  the string conversion (the only value that the examples convert and that is not a
  string is an object with an own property \<open>toString\<close>); two documents are stored;
  the database accepts every record that the schema lets pass, and the one record that
  the schema rejects in the examples is the one with an empty \<open>queryText\<close>.
\<close>

definition scripted ::
  "(nat \<times> (string + string)) list \<Rightarrow> nat \<Rightarrow> string \<Rightarrow> nat \<times> (string + string)" where
  "scripted outcomes i prompt =
     (if i < length outcomes then outcomes ! i else (0, Inl ''fetch failed''))"

definition blue_text :: string where
  \<open>blue_text = ''{"answer":"Blue","canAnswer":true,"confidence":0.95,"reasoning":"stated directly"}''\<close>

definition unsure_text :: string where
  \<open>unsure_text = ''{"answer":"Unknown","canAnswer":false,"confidence":0,"reasoning":"not stated"}''\<close>

definition four_questions_text :: string where
  \<open>four_questions_text = ''{"questions":["Who?","What?","When?","Where?"]}''\<close>

definition parse_table :: "string \<Rightarrow> jsval option" where
  "parse_table s =
     (if s = ''null'' then Some JNull
      else if s = ''42'' then Some (JNum 42)
      else if s = blue_text
      then Some (JObj [(''answer'', JStr ''Blue''), (''canAnswer'', JBool True),
                       (''confidence'', JNum (95 / 100)),
                       (''reasoning'', JStr ''stated directly'')])
      else if s = unsure_text
      then Some (JObj [(''answer'', JStr ''Unknown''), (''canAnswer'', JBool False),
                       (''confidence'', JNum 0), (''reasoning'', JStr ''not stated'')])
      else if s = four_questions_text
      then Some (JObj [(''questions'',
                        JArr [JStr ''Who?'', JStr ''What?'', JStr ''When?'', JStr ''Where?''] [])])
      else None)"

definition convert_table :: "jsval \<Rightarrow> string + string" where
  "convert_table v =
     (if v = JObj [(''toString'', JNum 1)]
      then Inl ''Cannot convert object to primitive value''
      else Inr ''[object Object]'')"

definition required_message :: string where
  "required_message =
     ''Query validation failed: queryText: Path '' @ [CHR 0x60] @ ''queryText'' @ [CHR 0x60]
       @ '' is required.''"

definition sky_doc :: document where
  "sky_doc = \<lparr>doc_id = ''doc1'', originalName = ''sky.txt'',
              extractedText = ''The sky is blue.''\<rparr>"

definition blank_doc :: document where
  "blank_doc = \<lparr>doc_id = ''doc2'', originalName = ''blank.txt'', extractedText = ''  ''\<rparr>"

definition example_store :: "jsval \<Rightarrow> string + document option" where
  "example_store d =
     (if d = JStr ''doc1'' then Inr (Some sky_doc)
      else if d = JStr ''doc2'' then Inr (Some blank_doc)
      else Inr None)"

definition example_env :: "(nat \<times> (string + string)) list \<Rightarrow> env" where
  "example_env script =
     \<lparr>api_key_set = True, generateContent = scripted script, json_parse = parse_table,
      string_of = convert_table, findById = example_store,
      validation_message = (\<lambda>r. required_message), save_query = (\<lambda>r. None)\<rparr>"

definition start :: world where
  "start = \<lparr>model_ready = False, clock = 0, prompts = [], sleeps = [], saved = []\<rparr>"

definition overloaded_message :: string where
  "overloaded_message = ''[503 Service Unavailable] The model is overloaded. Please try again later.''"

definition sky_text :: string where
  "sky_text = ''What color is the sky?''"

definition sky_question :: jsval where
  "sky_question = JStr sky_text"

definition always_overloaded :: "(nat \<times> (string + string)) list" where
  "always_overloaded =
     [(100, Inl overloaded_message), (100, Inl overloaded_message),
      (100, Inl overloaded_message)]"

definition credentials_message :: string where
  "credentials_message =
     ''[400 Bad Request] API key not valid. Please pass a valid API key. (API_KEY_INVALID)''"

definition mixed_message :: string where
  "mixed_message = ''[429 Too Many Requests] quota service overloaded''"

text \<open>
  The message of the error that \<open>processQueryWithGemini\<close> throws for a provider
  failure that is not an overload.
\<close>

definition fatal_error :: "string \<Rightarrow> string" where
  "fatal_error msg =
     (if includes_str msg ''API_KEY''
      then ''Invalid Gemini API key. Please check your configuration.''
      else if includes_str msg ''quota''
      then ''Gemini API quota exceeded. Please try again later.''
      else if includes_str msg ''SAFETY''
      then ''Content was blocked by Gemini safety filters. Please try a different query.''
      else ''Gemini processing failed: '' @ msg)"

text \<open>
  The query of a batch entry, and the inputs of the batch examples: three questions
  whose second provider call fails with a credentials error, a response that is not
  structured, and an environment without an API key.
\<close>

fun item_query :: "batch_item \<Rightarrow> jsval" where
  "item_query (Success q a c) = q"
| "item_query (Failure q e) = q"

definition three_questions :: "jsval list" where
  "three_questions =
     [JStr sky_text, JStr ''Why is it blue?'', JStr ''Is it always blue?'']"

definition plain_text :: string where
  "plain_text = ''I think it's blue.''"

definition mixed_script :: "(nat \<times> (string + string)) list" where
  "mixed_script =
     [(100, Inr blue_text), (100, Inl credentials_message), (100, Inr plain_text)]"

definition keyless_env :: env where
  "keyless_env = (example_env [])\<lparr>api_key_set := False\<rparr>"

text \<open>
  A question is a string. The further inputs of the examples: a one-letter question
  between two no-break spaces, and a value that cannot be converted to a string.
\<close>

fun is_string :: "jsval \<Rightarrow> bool" where
  "is_string (JStr s) = True"
| "is_string v = False"

definition padded_question :: string where
  "padded_question = [CHR 0xA0, CHR ''a'', CHR 0xA0]"

definition odd_question :: jsval where
  "odd_question = JObj [(''toString'', JNum 1)]"

section \<open>Properties of the Gemini service\<close>

subsection \<open>Auxiliary facts\<close>

lemma ensure_model_ok:
  "model_ready w \<or> api_key_set env \<Longrightarrow>
   ensure_model env w = (Inr (), w\<lparr>model_ready := True\<rparr>)"
  by (auto simp: ensure_model_def initializeGemini_def)

lemma retry_loop_success:
  "generateContent env (length (prompts w)) p = (lat, Inr text) \<Longrightarrow>
   retry_loop env p (Suc n) w =
     (Inr (Some text), w\<lparr>prompts := prompts w @ [p], clock := clock w + int lat\<rparr>)"
  by simp

lemma retry_loop_fatal:
  "generateContent env (length (prompts w)) p = (lat, Inl msg) \<Longrightarrow>
   \<not> includes_str msg ''overloaded'' \<Longrightarrow>
   retry_loop env p (Suc n) w =
     (Inl msg, w\<lparr>prompts := prompts w @ [p], clock := clock w + int lat\<rparr>)"
  by simp

lemma retry_loop_three_failures:
  assumes "generateContent env (length (prompts w)) p = (l0, Inl m0)"
      and "generateContent env (length (prompts w) + 1) p = (l1, Inl m1)"
      and "generateContent env (length (prompts w) + 2) p = (l2, Inl m2)"
      and "includes_str m0 ''overloaded''" and "includes_str m1 ''overloaded''"
  shows "retry_loop env p 3 w =
           (Inl m2, w\<lparr>prompts := prompts w @ [p, p, p],
                      clock := clock w + int l0 + 2000 + int l1 + 2000 + int l2,
                      sleeps := sleeps w @ [2000, 2000]\<rparr>)"
  using assms by (simp add: numeral_3_eq_3 Let_def)

lemma obj_get_update:
  "obj_get (AList.update k v kvs) k' = (if k' = k then v else obj_get kvs k')"
  by (simp add: obj_get_def update_conv')

lemma ensure_fields_obj:
  "ensure_fields (JObj kvs) rt =
     Inr (JObj (AList.update ''reasoning'' (js_or (obj_get kvs ''reasoning'') (JStr ''Analysis completed''))
           (AList.update ''confidence'' (js_or (obj_get kvs ''confidence'') (JNum (7 / 10)))
           (AList.update ''canAnswer''
              (if obj_get kvs ''canAnswer'' \<noteq> JUndefined then obj_get kvs ''canAnswer'' else JBool True)
           (AList.update ''answer'' (js_or (obj_get kvs ''answer'') rt) kvs)))))"
  by (simp add: ensure_fields_def bind_err_def obj_get_update)

text \<open>What the body of the outer \<open>try\<close> does when the first provider call succeeds.\<close>

lemma query_body_first_success:
  assumes ready: "model_ready w \<or> api_key_set env"
      and conv: "template_str env userQuery = Inr question"
      and call: "generateContent env (length (prompts w)) (build_prompt documentText question)
                   = (lat, Inr text)"
  shows "query_body env documentText userQuery w =
           (let w1 = w\<lparr>model_ready := True,
                        prompts := prompts w @ [build_prompt documentText question],
                        clock := clock w + int lat\<rparr> in
            case ensure_fields (decode_response env (Some text)) (JStr text) of
              Inl e \<Rightarrow> (Inl e, w1)
            | Inr p \<Rightarrow>
                (Inr \<lparr>answer = spread_get p ''answer'', canAnswer = spread_get p ''canAnswer'',
                      confidence = spread_get p ''confidence'',
                      reasoning = spread_get p ''reasoning'', processingTime = int lat,
                      tokensUsed = estimateTokens (build_prompt documentText question @ text)\<rparr>,
                 w1))"
proof -
  let ?p = "build_prompt documentText question"
  let ?w0 = "w\<lparr>model_ready := True\<rparr>"
  have c: "generateContent env (length (prompts ?w0)) ?p = (lat, Inr text)"
    using call by simp
  have loop: "retry_loop env ?p 3 ?w0 =
     (Inr (Some text), ?w0\<lparr>prompts := prompts ?w0 @ [?p], clock := clock ?w0 + int lat\<rparr>)"
    unfolding numeral_3_eq_3 by (rule retry_loop_success [OF c])
  show ?thesis
    unfolding query_body_def ensure_model_ok [OF ready] using loop conv
    by (simp add: Let_def text_val_def text_str_def split: sum.splits)
qed

lemma overloaded_message_transient: "transient_overload overloaded_message"
  by (simp add: transient_overload_def overloaded_message_def starts_with_def)

subsection \<open>Retry and the overload fallback\<close>

text \<open>
  Claim C2. When the model is available (already set up, or the API key is set), the
  question converts to a string (as every string does) and each of the three
  provider calls fails with a transient overload, then
  \<open>processQueryWithGemini\<close> calls the provider exactly three times with the prompt,
  waits 2000 ms twice, and returns (it does not throw) the fallback answer:
  \<open>canAnswer\<close> is false, \<open>confidence\<close> is 0, and the answer text is built from the
  question alone, not from anything the provider sent.
\<close>

theorem overload_exhaustion_degrades:
  assumes ready: "model_ready w \<or> api_key_set env"
      and conv: "template_str env userQuery = Inr question"
      and fails: "\<forall>i<3. \<exists>lat msg.
                    generateContent env (length (prompts w) + i)
                      (build_prompt documentText question) = (lat, Inl msg)
                    \<and> transient_overload msg"
  shows "\<exists>w'. processQueryWithGemini env documentText userQuery w =
                 (Inr \<lparr>answer = JStr (overload_answer question),
                       canAnswer = JBool False, confidence = JNum 0,
                       reasoning = JStr ''Gemini API is temporarily overloaded'',
                       processingTime = 1000, tokensUsed = 0\<rparr>, w')
              \<and> prompts w' = prompts w @ replicate 3 (build_prompt documentText question)
              \<and> sleeps w' = sleeps w @ [2000, 2000]"
proof -
  let ?p = "build_prompt documentText question"
  let ?w0 = "w\<lparr>model_ready := True\<rparr>"
  obtain l0 m0 where c0: "generateContent env (length (prompts w)) ?p = (l0, Inl m0)"
    and t0: "transient_overload m0" using fails [rule_format, of 0] by auto
  obtain l1 m1 where c1: "generateContent env (length (prompts w) + 1) ?p = (l1, Inl m1)"
    and t1: "transient_overload m1" using fails [rule_format, of 1] by auto
  obtain l2 m2 where c2: "generateContent env (length (prompts w) + 2) ?p = (l2, Inl m2)"
    and t2: "transient_overload m2" using fails [rule_format, of 2] by auto
  let ?w3 = "?w0\<lparr>prompts := prompts ?w0 @ [?p, ?p, ?p],
                      clock := clock ?w0 + int l0 + 2000 + int l1 + 2000 + int l2,
                      sleeps := sleeps ?w0 @ [2000, 2000]\<rparr>"
  have loop: "retry_loop env ?p 3 ?w0 = (Inl m2, ?w3)"
  proof (rule retry_loop_three_failures)
    show "generateContent env (length (prompts ?w0)) ?p = (l0, Inl m0)" using c0 by simp
    show "generateContent env (length (prompts ?w0) + 1) ?p = (l1, Inl m1)" using c1 by simp
    show "generateContent env (length (prompts ?w0) + 2) ?p = (l2, Inl m2)" using c2 by simp
    show "includes_str m0 ''overloaded''" using t0 by (simp add: transient_overload_def)
    show "includes_str m1 ''overloaded''" using t1 by (simp add: transient_overload_def)
  qed
  have body: "query_body env documentText userQuery w = (Inl m2, ?w3)"
    unfolding query_body_def ensure_model_ok [OF ready] using loop conv
    by (simp add: Let_def)
  have caught: "catch_gemini env userQuery m2 ?w3 =
                  Inr \<lparr>answer = JStr (overload_answer question),
                       canAnswer = JBool False, confidence = JNum 0,
                       reasoning = JStr ''Gemini API is temporarily overloaded'',
                       processingTime = 1000, tokensUsed = 0\<rparr>"
    using t2 conv
    by (simp add: catch_gemini_def transient_overload_def overload_fallback_def)
  have rep: "replicate 3 ?p = [?p, ?p, ?p]" by (simp add: numeral_3_eq_3)
  have "processQueryWithGemini env documentText userQuery w =
          (Inr \<lparr>answer = JStr (overload_answer question),
                       canAnswer = JBool False, confidence = JNum 0,
                       reasoning = JStr ''Gemini API is temporarily overloaded'',
                       processingTime = 1000, tokensUsed = 0\<rparr>, ?w3)"
    unfolding processQueryWithGemini_def body using caught by simp
  moreover have "prompts ?w3 = prompts w @ replicate 3 ?p" unfolding rep by simp
  moreover have "sleeps ?w3 = sleeps w @ [2000, 2000]" by simp
  ultimately show ?thesis by blast
qed

theorem overload_exhaustion_degrades_witness:
  "(model_ready start \<or> api_key_set (example_env always_overloaded))
   \<and> template_str (example_env always_overloaded) sky_question = Inr sky_text
   \<and> generateContent (example_env always_overloaded) (length (prompts start))
         (build_prompt (extractedText sky_doc) sky_text)
         = (100, Inl overloaded_message)
   \<and> generateContent (example_env always_overloaded) (length (prompts start) + 1)
         (build_prompt (extractedText sky_doc) sky_text)
         = (100, Inl overloaded_message)
   \<and> generateContent (example_env always_overloaded) (length (prompts start) + 2)
         (build_prompt (extractedText sky_doc) sky_text)
         = (100, Inl overloaded_message)
   \<and> transient_overload overloaded_message
   \<and> (\<exists>w'. processQueryWithGemini (example_env always_overloaded) (extractedText sky_doc)
               sky_question start =
                 (Inr \<lparr>answer = JStr (overload_answer sky_text),
                       canAnswer = JBool False, confidence = JNum 0,
                       reasoning = JStr ''Gemini API is temporarily overloaded'',
                       processingTime = 1000, tokensUsed = 0\<rparr>, w')
              \<and> prompts w' = prompts start
                    @ replicate 3 (build_prompt (extractedText sky_doc) sky_text)
              \<and> sleeps w' = sleeps start @ [2000, 2000])"
proof -
  let ?env = "example_env always_overloaded"
  let ?p = "build_prompt (extractedText sky_doc) sky_text"
  have h1: "model_ready start \<or> api_key_set ?env"
    by (simp add: example_env_def)
  have cv: "template_str ?env sky_question = Inr sky_text"
    by (simp add: template_str_def sky_question_def)
  have c0: "generateContent ?env (length (prompts start)) ?p = (100, Inl overloaded_message)"
    by (simp add: example_env_def scripted_def always_overloaded_def start_def)
  have c1: "generateContent ?env (length (prompts start) + 1) ?p = (100, Inl overloaded_message)"
    by (simp add: example_env_def scripted_def always_overloaded_def start_def)
  have c2: "generateContent ?env (length (prompts start) + 2) ?p = (100, Inl overloaded_message)"
    by (simp add: example_env_def scripted_def always_overloaded_def start_def)
  have h2: "\<forall>i<3. \<exists>lat msg.
              generateContent ?env (length (prompts start) + i) ?p = (lat, Inl msg)
              \<and> transient_overload msg"
    using c0 c1 c2 overloaded_message_transient
    by (simp add: less_Suc_eq numeral_3_eq_3)
  from overload_exhaustion_degrades [OF h1 cv h2] h1 cv c0 c1 c2 overloaded_message_transient
  show ?thesis by blast
qed

text \<open>
  Claim C7 asks that the fallback report the time that really passed over the
  retries. The code does not: with the provider overloaded on all three calls, each
  call taking 100 ms, 4300 ms pass on the clock between entry and return (three calls
  and two waits of 2000 ms), and the fallback reports \<open>processingTime = 1000\<close>, the
  value of \<open>Date.now() - (Date.now() - 1000)\<close>.
\<close>

theorem fallback_time_is_constant:
  "processingTime (projr (fst (processQueryWithGemini (example_env always_overloaded)
        (extractedText sky_doc) sky_question start))) = 1000
   \<and> clock (snd (processQueryWithGemini (example_env always_overloaded)
        (extractedText sky_doc) sky_question start)) - clock start = 4300"
  by (simp add: processQueryWithGemini_def query_body_def ensure_model_def template_str_def
      sky_question_def
      initializeGemini_def example_env_def always_overloaded_def scripted_def start_def
      numeral_3_eq_3 overloaded_message_def starts_with_def catch_gemini_def
      overload_fallback_def Let_def)

subsection \<open>Failures that are not retried\<close>

lemma query_body_first_fatal:
  assumes ready: "model_ready w \<or> api_key_set env"
      and conv: "template_str env userQuery = Inr question"
      and call: "generateContent env (length (prompts w)) (build_prompt documentText question)
                   = (lat, Inl msg)"
      and fatal: "\<not> includes_str msg ''overloaded''"
  shows "query_body env documentText userQuery w =
           (Inl msg, w\<lparr>model_ready := True,
                        prompts := prompts w @ [build_prompt documentText question],
                        clock := clock w + int lat\<rparr>)"
proof -
  let ?p = "build_prompt documentText question"
  let ?w0 = "w\<lparr>model_ready := True\<rparr>"
  have c: "generateContent env (length (prompts ?w0)) ?p = (lat, Inl msg)"
    using call by simp
  have loop: "retry_loop env ?p 3 ?w0 =
     (Inl msg, ?w0\<lparr>prompts := prompts ?w0 @ [?p], clock := clock ?w0 + int lat\<rparr>)"
    unfolding numeral_3_eq_3 by (rule retry_loop_fatal [OF c fatal])
  show ?thesis
    unfolding query_body_def ensure_model_ok [OF ready] using loop conv
    by (simp add: Let_def)
qed

text \<open>
  Claim C6, as stated, fails in two places. A credentials failure is thrown on as the
  fixed message \<open>Invalid Gemini API key. Please check your configuration.\<close>, which
  carries nothing of what the provider said. And a failure that the outer \<open>catch\<close>
  reports as a quota failure is retried when its message also includes \<open>overloaded\<close>:
  three provider calls are made for it.
\<close>

theorem credentials_detail_dropped:
  "fst (processQueryWithGemini (example_env [(100, Inl credentials_message)])
          (extractedText sky_doc) sky_question start)
     = Inl ''Invalid Gemini API key. Please check your configuration.''
   \<and> \<not> includes_str ''Invalid Gemini API key. Please check your configuration.''
          credentials_message
   \<and> \<not> transient_overload mixed_message
   \<and> length (prompts (snd (processQueryWithGemini
                 (example_env [(100, Inl mixed_message), (100, Inl mixed_message),
                               (100, Inl mixed_message)])
                 (extractedText sky_doc) sky_question start))) = 3"
  by (simp add: processQueryWithGemini_def query_body_def ensure_model_def template_str_def
      sky_question_def
      initializeGemini_def example_env_def scripted_def start_def
      numeral_3_eq_3 credentials_message_def mixed_message_def starts_with_def catch_gemini_def
      transient_overload_def Let_def)

text \<open>
  Claim C6, amended. When the model is available, the question converts to a string
  (as every string does) and a provider call fails with a
  message that does not include \<open>overloaded\<close>, the retry loop stops at that call,
  whatever number of retries is left, and throws the failure on, and the outer
  \<open>catch\<close> throws it to the caller: as a fixed message for a credentials, quota or
  safety failure, and as \<open>Gemini processing failed:\<close> followed by the provider's
  message for any other. When the failing call is the first one,
  \<open>processQueryWithGemini\<close> makes exactly one provider call and waits for nothing.
\<close>

theorem other_failures_fatal:
  assumes ready: "model_ready w \<or> api_key_set env"
      and conv: "template_str env userQuery = Inr question"
      and call: "generateContent env (length (prompts w)) (build_prompt documentText question)
                   = (lat, Inl msg)"
      and fatal: "\<not> includes_str msg ''overloaded''"
  shows "(\<exists>w'. processQueryWithGemini env documentText userQuery w = (Inl (fatal_error msg), w')
            \<and> prompts w' = prompts w @ [build_prompt documentText question]
            \<and> sleeps w' = sleeps w)
         \<and> retry_loop env (build_prompt documentText question) (Suc n) w =
             (Inl msg, w\<lparr>prompts := prompts w @ [build_prompt documentText question],
                          clock := clock w + int lat\<rparr>)
         \<and> catch_gemini env userQuery msg u = Inl (fatal_error msg)"
proof (intro conjI)
  show "\<exists>w'. processQueryWithGemini env documentText userQuery w = (Inl (fatal_error msg), w')
            \<and> prompts w' = prompts w @ [build_prompt documentText question]
            \<and> sleeps w' = sleeps w"
    unfolding processQueryWithGemini_def query_body_first_fatal [OF ready conv call fatal]
    using fatal by (simp add: catch_gemini_def fatal_error_def)
  show "retry_loop env (build_prompt documentText question) (Suc n) w =
           (Inl msg, w\<lparr>prompts := prompts w @ [build_prompt documentText question],
                        clock := clock w + int lat\<rparr>)"
    by (rule retry_loop_fatal [OF call fatal])
  show "catch_gemini env userQuery msg u = Inl (fatal_error msg)"
    using fatal by (simp add: catch_gemini_def fatal_error_def)
qed

theorem other_failures_fatal_witness:
  "(model_ready start \<or> api_key_set (example_env [(100, Inl credentials_message)]))
   \<and> template_str (example_env [(100, Inl credentials_message)]) sky_question = Inr sky_text
   \<and> generateContent (example_env [(100, Inl credentials_message)]) (length (prompts start))
         (build_prompt (extractedText sky_doc) sky_text)
       = (100, Inl credentials_message)
   \<and> \<not> includes_str credentials_message ''overloaded''
   \<and> fatal_error credentials_message = ''Invalid Gemini API key. Please check your configuration.''
   \<and> (\<exists>w'. processQueryWithGemini (example_env [(100, Inl credentials_message)])
               (extractedText sky_doc) sky_question start
             = (Inl (fatal_error credentials_message), w')
            \<and> prompts w' = prompts start
                 @ [build_prompt (extractedText sky_doc) sky_text]
            \<and> sleeps w' = sleeps start)"
proof -
  let ?env = "example_env [(100, Inl credentials_message)]"
  have h1: "model_ready start \<or> api_key_set ?env"
    by (simp add: example_env_def)
  have h2: "generateContent ?env (length (prompts start))
              (build_prompt (extractedText sky_doc) sky_text)
            = (100, Inl credentials_message)"
    by (simp add: example_env_def scripted_def start_def)
  have cv: "template_str ?env sky_question = Inr sky_text"
    by (simp add: template_str_def sky_question_def)
  have h3: "\<not> includes_str credentials_message ''overloaded''"
    by (simp add: credentials_message_def starts_with_def)
  have h4: "fatal_error credentials_message
              = ''Invalid Gemini API key. Please check your configuration.''"
    by (simp add: fatal_error_def credentials_message_def starts_with_def)
  from other_failures_fatal [OF h1 cv h2 h3, of 2 start] h1 cv h2 h3 h4
  show ?thesis by blast
qed

subsection \<open>Parsing the response\<close>

text \<open>
  Claim C9. When the model is available, the question converts to a string (as every
  string does), the first provider call succeeds and its
  text, once cleaned, decodes to an object, then \<open>processQueryWithGemini\<close> returns a
  response in which a decoded \<open>confidence\<close> of 0 has been replaced by 0.7, while a
  decoded \<open>canAnswer\<close> of \<open>false\<close> is kept as \<open>false\<close>.
\<close>

theorem zero_confidence_defaulted:
  assumes ready: "model_ready w \<or> api_key_set env"
      and conv: "template_str env userQuery = Inr question"
      and call: "generateContent env (length (prompts w)) (build_prompt documentText question)
                   = (lat, Inr text)"
      and parsed: "json_parse env (js_trim (strip_fences text)) = Some (JObj kvs)"
  shows "\<exists>r w'. processQueryWithGemini env documentText userQuery w = (Inr r, w')
           \<and> (obj_get kvs ''confidence'' = JNum 0 \<longrightarrow> confidence r = JNum (7 / 10))
           \<and> (obj_get kvs ''canAnswer'' = JBool False \<longrightarrow> canAnswer r = JBool False)"
proof -
  have dec: "decode_response env (Some text) = JObj kvs"
    using parsed by (simp add: decode_response_def)
  show ?thesis
    unfolding processQueryWithGemini_def query_body_first_success [OF ready conv call] dec
      ensure_fields_obj
    by (simp add: Let_def obj_get_update js_or_def)
qed

theorem zero_confidence_defaulted_witness:
  "(model_ready start \<or> api_key_set (example_env [(100, Inr unsure_text)]))
   \<and> template_str (example_env [(100, Inr unsure_text)]) sky_question = Inr sky_text
   \<and> generateContent (example_env [(100, Inr unsure_text)]) (length (prompts start))
        (build_prompt (extractedText sky_doc) sky_text)
        = (100, Inr unsure_text)
   \<and> json_parse (example_env [(100, Inr unsure_text)]) (js_trim (strip_fences unsure_text))
        = Some (JObj [(''answer'', JStr ''Unknown''), (''canAnswer'', JBool False),
                      (''confidence'', JNum 0), (''reasoning'', JStr ''not stated'')])
   \<and> obj_get [(''answer'', JStr ''Unknown''), (''canAnswer'', JBool False),
               (''confidence'', JNum 0), (''reasoning'', JStr ''not stated'')] ''confidence'' = JNum 0
   \<and> obj_get [(''answer'', JStr ''Unknown''), (''canAnswer'', JBool False),
               (''confidence'', JNum 0), (''reasoning'', JStr ''not stated'')] ''canAnswer'' = JBool False
   \<and> (\<exists>r w'. processQueryWithGemini (example_env [(100, Inr unsure_text)])
                 (extractedText sky_doc) sky_question start = (Inr r, w')
           \<and> confidence r = JNum (7 / 10) \<and> canAnswer r = JBool False)"
proof -
  let ?env = "example_env [(100, Inr unsure_text)]"
  let ?kvs = "[(''answer'', JStr ''Unknown''), (''canAnswer'', JBool False),
               (''confidence'', JNum 0), (''reasoning'', JStr ''not stated'')]"
  have h1: "model_ready start \<or> api_key_set ?env"
    by (simp add: example_env_def)
  have h2: "generateContent ?env (length (prompts start))
              (build_prompt (extractedText sky_doc) sky_text) = (100, Inr unsure_text)"
    by (simp add: example_env_def scripted_def start_def)
  have cv: "template_str ?env sky_question = Inr sky_text"
    by (simp add: template_str_def sky_question_def)
  have clean: "js_trim (strip_fences unsure_text) = unsure_text"
    by code_simp
  have h3: "json_parse ?env (js_trim (strip_fences unsure_text)) = Some (JObj ?kvs)"
    unfolding clean by (simp add: example_env_def parse_table_def unsure_text_def blue_text_def)
  have h4: "obj_get ?kvs ''confidence'' = JNum 0" by (simp add: obj_get_def)
  have h5: "obj_get ?kvs ''canAnswer'' = JBool False" by (simp add: obj_get_def)
  from zero_confidence_defaulted [OF h1 cv h2 h3] h4 h5
  have "\<exists>r w'. processQueryWithGemini ?env (extractedText sky_doc) sky_question start = (Inr r, w')
           \<and> confidence r = JNum (7 / 10) \<and> canAnswer r = JBool False"
    by blast
  with h1 cv h2 h3 h4 h5 show ?thesis by blast
qed

text \<open>
  Claim C3 asks that parsing never throws and always fills the four fields. The code
  does not: when the provider's text is \<open>null\<close>, \<open>JSON.parse\<close> succeeds with \<open>null\<close>,
  reading \<open>parsedResponse.answer\<close> throws a TypeError, and \<open>processQueryWithGemini\<close>
  throws \<open>Gemini processing failed: ...\<close>; when the text is \<open>42\<close>, the four assignments
  are dropped and the returned object has no \<open>answer\<close>.
\<close>

theorem parser_throws_on_null:
  "fst (processQueryWithGemini (example_env [(100, Inr ''null'')])
          (extractedText sky_doc) sky_question start)
     = Inl (''Gemini processing failed: '' @ null_read_message ''answer'')
   \<and> answer (projr (fst (processQueryWithGemini (example_env [(100, Inr ''42'')])
          (extractedText sky_doc) sky_question start))) = JUndefined"
  by (simp add: processQueryWithGemini_def query_body_def ensure_model_def template_str_def
      sky_question_def
      initializeGemini_def example_env_def scripted_def start_def decode_response_def
      numeral_3_eq_3 starts_with_def catch_gemini_def strip_fences.simps js_trim_def js_space_def
      parse_table_def ensure_fields_def bind_err_def null_read_message_def text_val_def fence_def nl_def
      Let_def)

text \<open>
  The part of claim C3 that the code keeps: when the first provider call succeeds
  and its text does not decode, the response is the text itself with \<open>canAnswer\<close>
  true, \<open>confidence\<close> 0.7 and the note that the text was not in the expected format.
\<close>

lemma undecodable_text_fallback:
  assumes ready: "model_ready w \<or> api_key_set env"
      and conv: "template_str env userQuery = Inr question"
      and call: "generateContent env (length (prompts w)) (build_prompt documentText question)
                   = (lat, Inr text)"
      and parsed: "json_parse env (js_trim (strip_fences text)) = None"
  shows "\<exists>w'. processQueryWithGemini env documentText userQuery w =
           (Inr \<lparr>answer = JStr text, canAnswer = JBool True, confidence = JNum (7 / 10),
                 reasoning = JStr ''Response generated but not in expected JSON format'',
                 processingTime = int lat,
                 tokensUsed = estimateTokens (build_prompt documentText question @ text)\<rparr>,
            w')"
proof -
  have dec: "decode_response env (Some text) = fallback_response (JStr text)"
    using parsed by (simp add: decode_response_def)
  show ?thesis
    unfolding processQueryWithGemini_def query_body_first_success [OF ready conv call] dec
      fallback_response_def ensure_fields_obj
    by (simp add: Let_def obj_get_update js_or_def obj_get_def)
qed

subsection \<open>Recommended questions\<close>

lemma questions_body_call:
  assumes ready: "model_ready w \<or> api_key_set env"
      and call: "generateContent env (length (prompts w)) (questions_prompt documentText)
                   = (lat, outcome)"
  shows "fst (questions_body env documentText w) =
           (case outcome of Inl e \<Rightarrow> Inl e
            | Inr text \<Rightarrow> Inr (questions_of_text env text))"
proof -
  have c: "generateContent env (length (prompts (w\<lparr>model_ready := True\<rparr>)))
             (questions_prompt documentText) = (lat, outcome)"
    using call by simp
  show ?thesis
    unfolding questions_body_def ensure_model_ok [OF ready] using c
    by (simp add: Let_def split: sum.splits)
qed

text \<open>
  Claim C8, as stated, fails: the generator returns whatever the decoded
  \<open>questions\<close> field holds. When the provider answers with four questions, four
  questions are returned, not one to three.
\<close>

theorem four_questions_returned:
  "fst (generateRecommendedQuestions (example_env [(100, Inr four_questions_text)])
          (extractedText sky_doc) start)
     = Inr (JArr [JStr ''Who?'', JStr ''What?'', JStr ''When?'', JStr ''Where?''] [])
   \<and> length (elements (projr (fst (generateRecommendedQuestions
         (example_env [(100, Inr four_questions_text)]) (extractedText sky_doc) start)))) = 4"
proof -
  have clean: "js_trim (strip_fences four_questions_text) = four_questions_text"
    by code_simp
  have "fst (generateRecommendedQuestions (example_env [(100, Inr four_questions_text)])
          (extractedText sky_doc) start)
     = Inr (JArr [JStr ''Who?'', JStr ''What?'', JStr ''When?'', JStr ''Where?''] [])"
    by (simp add: generateRecommendedQuestions_def questions_body_def ensure_model_def
      initializeGemini_def example_env_def scripted_def start_def questions_of_text_def clean
      parse_table_def obj_get_def js_or_def Let_def)
      (simp add: four_questions_text_def blue_text_def unsure_text_def)
  then show ?thesis by simp
qed

text \<open>
  Claim C8, amended. \<open>generateRecommendedQuestions\<close> always returns and never throws.
  It returns the fixed list of three generic questions when the model cannot be set
  up, when the provider call fails, and when the provider's text does not decode;
  when the text decodes to an object it returns the decoded \<open>questions\<close> field as it
  is, whatever its length, and the fixed list when that field is missing or falsy.
\<close>

theorem recommendations_never_throw:
  "(\<exists>v w'. generateRecommendedQuestions env documentText w = (Inr v, w'))
   \<and> (\<not> model_ready w \<and> \<not> api_key_set env \<longrightarrow>
        fst (generateRecommendedQuestions env documentText w) = Inr default_questions)
   \<and> ((model_ready w \<or> api_key_set env)
        \<and> generateContent env (length (prompts w)) (questions_prompt documentText)
            = (lat, Inl e) \<longrightarrow>
        fst (generateRecommendedQuestions env documentText w) = Inr default_questions)
   \<and> ((model_ready w \<or> api_key_set env)
        \<and> generateContent env (length (prompts w)) (questions_prompt documentText)
            = (lat, Inr raw)
        \<and> json_parse env (js_trim (strip_fences raw)) = None \<longrightarrow>
        fst (generateRecommendedQuestions env documentText w) = Inr default_questions)
   \<and> ((model_ready w \<or> api_key_set env)
        \<and> generateContent env (length (prompts w)) (questions_prompt documentText)
            = (lat, Inr raw)
        \<and> json_parse env (js_trim (strip_fences raw)) = Some (JObj kvs) \<longrightarrow>
        fst (generateRecommendedQuestions env documentText w)
          = Inr (js_or (obj_get kvs ''questions'') default_questions))
   \<and> elements default_questions =
        [JStr ''What is the main topic of this document?'',
         JStr ''Can you summarize the key points?'',
         JStr ''What are the most important findings?'']"
proof (intro conjI impI)
  show "\<exists>v w'. generateRecommendedQuestions env documentText w = (Inr v, w')"
    by (cases "questions_body env documentText w")
       (auto simp: generateRecommendedQuestions_def split: sum.splits)
next
  assume "\<not> model_ready w \<and> \<not> api_key_set env"
  then show "fst (generateRecommendedQuestions env documentText w) = Inr default_questions"
    by (simp add: generateRecommendedQuestions_def questions_body_def ensure_model_def
        initializeGemini_def)
next
  assume a: "(model_ready w \<or> api_key_set env)
        \<and> generateContent env (length (prompts w)) (questions_prompt documentText) = (lat, Inl e)"
  then have "fst (questions_body env documentText w) = Inl e"
    using questions_body_call [of w env documentText lat "Inl e"] by simp
  then show "fst (generateRecommendedQuestions env documentText w) = Inr default_questions"
    by (cases "questions_body env documentText w")
       (auto simp: generateRecommendedQuestions_def)
next
  assume a: "(model_ready w \<or> api_key_set env)
        \<and> generateContent env (length (prompts w)) (questions_prompt documentText)
            = (lat, Inr raw)
        \<and> json_parse env (js_trim (strip_fences raw)) = None"
  then have "fst (questions_body env documentText w) = Inr default_questions"
    using questions_body_call [of w env documentText lat "Inr raw"]
    by (simp add: questions_of_text_def)
  then show "fst (generateRecommendedQuestions env documentText w) = Inr default_questions"
    by (cases "questions_body env documentText w")
       (auto simp: generateRecommendedQuestions_def)
next
  assume a: "(model_ready w \<or> api_key_set env)
        \<and> generateContent env (length (prompts w)) (questions_prompt documentText)
            = (lat, Inr raw)
        \<and> json_parse env (js_trim (strip_fences raw)) = Some (JObj kvs)"
  then have "fst (questions_body env documentText w)
               = Inr (js_or (obj_get kvs ''questions'') default_questions)"
    using questions_body_call [of w env documentText lat "Inr raw"]
    by (simp add: questions_of_text_def)
  then show "fst (generateRecommendedQuestions env documentText w)
          = Inr (js_or (obj_get kvs ''questions'') default_questions)"
    by (cases "questions_body env documentText w")
       (auto simp: generateRecommendedQuestions_def)
next
  show "elements default_questions =
        [JStr ''What is the main topic of this document?'',
         JStr ''Can you summarize the key points?'',
         JStr ''What are the most important findings?'']"
    by (simp add: default_questions_def)
qed

theorem recommendations_never_throw_witness:
  "\<not> model_ready start \<and> \<not> api_key_set keyless_env
   \<and> fst (generateRecommendedQuestions keyless_env (extractedText sky_doc) start)
       = Inr default_questions
   \<and> (model_ready start \<or> api_key_set (example_env [(100, Inl overloaded_message)]))
   \<and> generateContent (example_env [(100, Inl overloaded_message)]) (length (prompts start))
        (questions_prompt (extractedText sky_doc)) = (100, Inl overloaded_message)
   \<and> fst (generateRecommendedQuestions (example_env [(100, Inl overloaded_message)])
            (extractedText sky_doc) start) = Inr default_questions
   \<and> generateContent (example_env [(100, Inr plain_text)]) (length (prompts start))
        (questions_prompt (extractedText sky_doc)) = (100, Inr plain_text)
   \<and> json_parse (example_env [(100, Inr plain_text)]) (js_trim (strip_fences plain_text)) = None
   \<and> fst (generateRecommendedQuestions (example_env [(100, Inr plain_text)])
            (extractedText sky_doc) start) = Inr default_questions
   \<and> generateContent (example_env [(100, Inr four_questions_text)]) (length (prompts start))
        (questions_prompt (extractedText sky_doc)) = (100, Inr four_questions_text)
   \<and> json_parse (example_env [(100, Inr four_questions_text)])
        (js_trim (strip_fences four_questions_text))
       = Some (JObj [(''questions'',
                      JArr [JStr ''Who?'', JStr ''What?'', JStr ''When?'', JStr ''Where?''] [])])
   \<and> fst (generateRecommendedQuestions (example_env [(100, Inr four_questions_text)])
            (extractedText sky_doc) start)
       = Inr (JArr [JStr ''Who?'', JStr ''What?'', JStr ''When?'', JStr ''Where?''] [])"
proof -
  let ?d = "extractedText sky_doc"
  let ?e1 = "example_env [(100, Inl overloaded_message)]"
  let ?e2 = "example_env [(100, Inr plain_text)]"
  let ?e3 = "example_env [(100, Inr four_questions_text)]"
  let ?four = "JArr [JStr ''Who?'', JStr ''What?'', JStr ''When?'', JStr ''Where?''] []"
  have k: "\<not> model_ready start \<and> \<not> api_key_set keyless_env"
    by (simp add: start_def keyless_env_def example_env_def)
  have r1: "model_ready start \<or> api_key_set ?e1" by (simp add: example_env_def)
  have r2: "model_ready start \<or> api_key_set ?e2" by (simp add: example_env_def)
  have r3: "model_ready start \<or> api_key_set ?e3" by (simp add: example_env_def)
  have c1: "generateContent ?e1 (length (prompts start)) (questions_prompt ?d)
              = (100, Inl overloaded_message)"
    by (simp add: example_env_def scripted_def start_def)
  have c2: "generateContent ?e2 (length (prompts start)) (questions_prompt ?d)
              = (100, Inr plain_text)"
    by (simp add: example_env_def scripted_def start_def)
  have c3: "generateContent ?e3 (length (prompts start)) (questions_prompt ?d)
              = (100, Inr four_questions_text)"
    by (simp add: example_env_def scripted_def start_def)
  have clean2: "js_trim (strip_fences plain_text) = plain_text" by code_simp
  have p2: "json_parse ?e2 (js_trim (strip_fences plain_text)) = None"
    unfolding clean2
    by (simp add: example_env_def parse_table_def plain_text_def blue_text_def unsure_text_def
        four_questions_text_def)
  have clean3: "js_trim (strip_fences four_questions_text) = four_questions_text" by code_simp
  have p3: "json_parse ?e3 (js_trim (strip_fences four_questions_text))
              = Some (JObj [(''questions'', ?four)])"
    unfolding clean3
    by (simp add: example_env_def parse_table_def)
       (simp add: four_questions_text_def blue_text_def unsure_text_def)
  have v0: "fst (generateRecommendedQuestions keyless_env ?d start) = Inr default_questions"
    using recommendations_never_throw [where env = keyless_env and w = start] k by blast
  have v1: "fst (generateRecommendedQuestions ?e1 ?d start) = Inr default_questions"
    using recommendations_never_throw
      [where env = ?e1 and w = start and documentText = ?d and lat = 100
         and e = overloaded_message] r1 c1
    by blast
  have v2: "fst (generateRecommendedQuestions ?e2 ?d start) = Inr default_questions"
    using recommendations_never_throw
      [where env = ?e2 and w = start and documentText = ?d and lat = 100
         and raw = plain_text] r2 c2 p2
    by blast
  have "fst (generateRecommendedQuestions ?e3 ?d start)
          = Inr (js_or (obj_get [(''questions'', ?four)] ''questions'') default_questions)"
    using recommendations_never_throw
      [where env = ?e3 and w = start and documentText = ?d and lat = 100
         and raw = four_questions_text and kvs = "[(''questions'', ?four)]"] r3 c3 p3
    by blast
  then have v3: "fst (generateRecommendedQuestions ?e3 ?d start) = Inr ?four"
    by (simp add: obj_get_def js_or_def)
  from k v0 r1 c1 v1 c2 p2 v2 c3 p3 v3 show ?thesis by simp
qed

section \<open>Properties of the query routes\<close>

subsection \<open>The single query\<close>

text \<open>
  Claim C5. A question whose trimmed length is below 3 is answered with status 400
  and the world is left as it was: no document is looked up, the provider is not
  called, nothing is saved. The error is \<open>Invalid query\<close>, or
  \<open>Missing required fields\<close> when the document identifier is falsy or the question
  is the empty string.
\<close>

theorem short_question_rejected:
  assumes "length (js_trim q) < 3"
  shows "query_handler env documentId (JStr q) w =
           (if truthy documentId \<and> q \<noteq> []
            then ErrorJson 400 ''Invalid query'' (Some ''Query must be at least 3 characters long'')
            else ErrorJson 400 ''Missing required fields''
                   (Some ''Both documentId and query are required''), w)"
  using assms by (simp add: query_handler_def)

theorem short_question_rejected_witness:
  "length (js_trim '' a '') < 3
   \<and> query_handler (example_env [(100, Inr blue_text)]) (JStr ''doc1'') (JStr '' a '') start =
       (ErrorJson 400 ''Invalid query'' (Some ''Query must be at least 3 characters long''), start)
   \<and> length (js_trim padded_question) < 3
   \<and> query_handler (example_env [(100, Inr blue_text)]) (JStr ''doc1'') (JStr padded_question)
         start =
       (ErrorJson 400 ''Invalid query'' (Some ''Query must be at least 3 characters long''), start)
   \<and> prompts start = []"
proof -
  have h: "length (js_trim '' a '') < 3" by (simp add: js_trim_def js_space_def)
  have p: "length (js_trim padded_question) < 3"
    by (simp add: js_trim_def js_space_def padded_question_def)
  from short_question_rejected [OF h, of "example_env [(100, Inr blue_text)]" "JStr ''doc1''" start]
       short_question_rejected [OF p, of "example_env [(100, Inr blue_text)]" "JStr ''doc1''" start]
       h p
  show ?thesis by (simp add: start_def padded_question_def)
qed

text \<open>
  The single query against a document whose text is empty or white space only is
  answered with status 400 and the world is left as it was (the half of claim C4
  that the code keeps).
\<close>

lemma blank_document_rejected:
  assumes "truthy documentId" and "3 \<le> length (js_trim q)"
      and "findById env documentId = Inr (Some doc)"
      and "js_trim (extractedText doc) = []"
  shows "query_handler env documentId (JStr q) w =
           (ErrorJson 400 ''No text content''
              (Some ''The document has no extractable text content''), w)"
proof -
  have "q \<noteq> []" using assms(2) by (auto simp: js_trim_def)
  then show ?thesis using assms by (simp add: query_handler_def)
qed

subsection \<open>The batch\<close>

text \<open>
  A question that is a string always leaves the body of the loop with an entry for
  that question: the log line of the inner \<open>catch\<close> cannot throw for it.
\<close>

lemma process_one_string:
  "\<exists>r. fst (process_one env doc (JStr s) w) = Inr r \<and> item_query r = JStr s"
  by (cases "processQueryWithGemini env (extractedText doc) (JStr s) w")
     (auto simp: process_one_def catch_item_def template_str_def Let_def
           split: sum.splits option.splits)


lemma process_queries_world:
  "snd (process_queries env doc qs acc w) = snd (process_queries env doc qs [] w)"
proof (induction qs arbitrary: acc w)
  case Nil
  then show ?case by simp
next
  case (Cons q qs)
  obtain r w1 where one: "process_one env doc q w = (r, w1)" by (cases "process_one env doc q w")
  show ?case
  proof (cases r)
    case (Inl e)
    then show ?thesis using one by simp
  next
    case (Inr item)
    then show ?thesis using Cons [of "acc @ [item]" w1] Cons [of "[item]" w1] one by simp
  qed
qed

text \<open>
  The loop over string questions: it ends normally, and the entry at each position is
  the one that the body of the loop gives for the question at that position, run in
  the world that the questions before it have left.
\<close>

lemma process_queries_entries:
  assumes "\<forall>q\<in>set qs. is_string q"
  shows "\<exists>rs. fst (process_queries env doc qs acc w) = Inr (acc @ rs)
            \<and> length rs = length qs
            \<and> map item_query rs = qs
            \<and> (\<forall>i<length qs.
                  fst (process_one env doc (qs ! i)
                         (snd (process_queries env doc (take i qs) [] w))) = Inr (rs ! i))"
  using assms
proof (induction qs arbitrary: acc w)
  case Nil
  then show ?case by simp
next
  case (Cons q qs)
  from Cons.prems obtain s where q: "q = JStr s" by (cases q) auto
  obtain r where r: "fst (process_one env doc q w) = Inr r" and rq: "item_query r = q"
    using process_one_string [of env doc s w] q by auto
  obtain w1 where one: "process_one env doc q w = (Inr r, w1)"
    using r by (cases "process_one env doc q w") auto
  from Cons.prems have "\<forall>q\<in>set qs. is_string q" by simp
  from Cons.IH [OF this, of "acc @ [r]" w1]
  obtain rs where run: "fst (process_queries env doc qs (acc @ [r]) w1) = Inr ((acc @ [r]) @ rs)"
    and len: "length rs = length qs"
    and ord: "map item_query rs = qs"
    and nth: "\<forall>i<length qs.
                fst (process_one env doc (qs ! i)
                       (snd (process_queries env doc (take i qs) [] w1))) = Inr (rs ! i)"
    by blast
  have a: "fst (process_queries env doc (q # qs) acc w) = Inr (acc @ r # rs)"
    using one run by simp
  have b: "length (r # rs) = length (q # qs)" using len by simp
  have c: "map item_query (r # rs) = q # qs" using ord rq by simp
  have d: "fst (process_one env doc ((q # qs) ! i)
                  (snd (process_queries env doc (take i (q # qs)) [] w))) = Inr ((r # rs) ! i)"
    if "i < length (q # qs)" for i
  proof (cases i)
    case 0
    then show ?thesis using one by simp
  next
    case (Suc j)
    then have j: "j < length qs" using that by simp
    have "snd (process_queries env doc (take i (q # qs)) [] w)
            = snd (process_queries env doc (take j qs) [r] w1)"
      using Suc one by simp
    also have "\<dots> = snd (process_queries env doc (take j qs) [] w1)"
      by (rule process_queries_world)
    finally show ?thesis using nth j Suc by simp
  qed
  have d': "\<forall>i<length (q # qs).
              fst (process_one env doc ((q # qs) ! i)
                     (snd (process_queries env doc (take i (q # qs)) [] w))) = Inr ((r # rs) ! i)"
    using d by simp
  show ?case
    by (rule exI [of _ "r # rs"]) (intro conjI a b c d')
qed



text \<open>
  The scenario of three questions in full: a success, the failure of the second
  question, and a success again, in the order of the questions.
\<close>

lemma batch_scenario:
  "fst (batch_handler (example_env mixed_script) (JStr ''doc1'') (JArr three_questions []) start)
     = BatchJson ''sky.txt''
         [Success (JStr ''What color is the sky?'') (JStr ''Blue'') (JNum (95 / 100)),
          Failure (JStr ''Why is it blue?'')
            ''Invalid Gemini API key. Please check your configuration.'',
          Success (JStr ''Is it always blue?'') (JStr plain_text) (JNum (7 / 10))]"
  by (simp add: batch_handler_def example_store_def three_questions_def mixed_script_def
      process_one_def catch_item_def save_record_def schema_rejects_def blank_value_def
      template_str_def sky_text_def processQueryWithGemini_def query_body_def ensure_model_def
      initializeGemini_def example_env_def scripted_def start_def decode_response_def
      numeral_3_eq_3 starts_with_def catch_gemini_def strip_fences.simps js_trim_def js_space_def
      parse_table_def ensure_fields_def bind_err_def text_val_def text_str_def fence_def nl_def
      blue_text_def unsure_text_def four_questions_text_def plain_text_def
      credentials_message_def sky_doc_def fallback_response_def obj_get_def js_or_def Let_def)

text \<open>
  A question that is not a string and cannot be converted to one: the prompt cannot
  be built, the log line of the inner \<open>catch\<close> throws as well, the loop is left
  and the handler answers with status 500; the provider is not called.
\<close>

lemma unconvertible_question_aborts:
  "batch_handler (example_env [(100, Inr blue_text)]) (JStr ''doc1'') (JArr [odd_question] [])
     start
     = (ErrorJson 500 ''Batch processing failed''
          (Some ''Cannot convert object to primitive value''),
        start\<lparr>model_ready := True\<rparr>)"
  by (simp add: batch_handler_def example_store_def odd_question_def process_one_def
      catch_item_def template_str_def convert_table_def processQueryWithGemini_def
      query_body_def ensure_model_def initializeGemini_def example_env_def start_def
      catch_gemini_def starts_with_def Let_def)


text \<open>
  Claim C4 asks that no query is run against a document whose text is empty or
  white space only. The batch handler does not check the text: for the stored
  document whose text is two spaces it sends the prompt built from that text to the
  provider and reports a success entry.
\<close>

theorem batch_queries_blank_document:
  "js_trim (extractedText blank_doc) = []
   \<and> fst (batch_handler (example_env [(100, Inr ''There is no content.'')]) (JStr ''doc2'')
          (JArr [sky_question] []) start)
       = BatchJson ''blank.txt'' [Success sky_question (JStr ''There is no content.'') (JNum (7 / 10))]
   \<and> prompts (snd (batch_handler (example_env [(100, Inr ''There is no content.'')]) (JStr ''doc2'')
          (JArr [sky_question] []) start))
       = [build_prompt (extractedText blank_doc) sky_text]"
  by (simp add: batch_handler_def example_store_def blank_doc_def sky_question_def process_one_def
      catch_item_def save_record_def schema_rejects_def blank_value_def template_str_def
      sky_text_def processQueryWithGemini_def query_body_def ensure_model_def
      initializeGemini_def example_env_def scripted_def start_def decode_response_def
      numeral_3_eq_3 starts_with_def catch_gemini_def strip_fences.simps js_trim_def js_space_def
      parse_table_def ensure_fields_def bind_err_def text_val_def text_str_def fence_def nl_def
      blue_text_def unsure_text_def four_questions_text_def fallback_response_def
      obj_get_def js_or_def Let_def)

theorem batch_queries_blank_document_witness:
  "length (prompts (snd (batch_handler (example_env [(100, Inr ''There is no content.'')])
          (JStr ''doc2'') (JArr [sky_question] []) start))) = 1"
  using batch_queries_blank_document by simp

subsection \<open>No validation of the questions of a batch\<close>

lemma retry_loop_prompts:
  "\<exists>k. prompts (snd (retry_loop env p n w)) = prompts w @ replicate k p
       \<and> (0 < n \<longrightarrow> 0 < k)
       \<and> model_ready (snd (retry_loop env p n w)) = model_ready w"
proof (induction n arbitrary: w)
  case 0
  then show ?case by simp
next
  case (Suc n)
  obtain lat outcome where call: "generateContent env (length (prompts w)) p = (lat, outcome)"
    by (cases "generateContent env (length (prompts w)) p")
  let ?w1 = "w\<lparr>prompts := prompts w @ [p], clock := clock w + int lat\<rparr>"
  show ?case
  proof (cases outcome)
    case (Inr raw)
    then have "prompts (snd (retry_loop env p (Suc n) w)) = prompts w @ replicate 1 p"
      and "model_ready (snd (retry_loop env p (Suc n) w)) = model_ready w"
      using call by simp_all
    then show ?thesis by (metis zero_less_one)
  next
    case (Inl msg)
    show ?thesis
    proof (cases "includes_str msg ''overloaded'' \<and> Suc n > 1")
      case False
      then have "prompts (snd (retry_loop env p (Suc n) w)) = prompts w @ replicate 1 p"
        and "model_ready (snd (retry_loop env p (Suc n) w)) = model_ready w"
        using call Inl by auto
      then show ?thesis by (metis zero_less_one)
    next
      case True
      let ?w2 = "?w1\<lparr>sleeps := sleeps ?w1 @ [2000], clock := clock ?w1 + 2000\<rparr>"
      have step: "retry_loop env p (Suc n) w = retry_loop env p n ?w2"
        using call Inl True by simp
      obtain k where k: "prompts (snd (retry_loop env p n ?w2)) = prompts ?w2 @ replicate k p"
        and m: "model_ready (snd (retry_loop env p n ?w2)) = model_ready ?w2"
        using Suc [of ?w2] by blast
      have "prompts (snd (retry_loop env p (Suc n) w)) = prompts w @ replicate (Suc k) p"
        using k step by (simp add: replicate_append_same)
      moreover have "model_ready (snd (retry_loop env p (Suc n) w)) = model_ready w"
        using m step by simp
      ultimately show ?thesis by (metis zero_less_Suc)
    qed
  qed
qed

lemma query_body_prompts:
  assumes ready: "model_ready w \<or> api_key_set env"
      and conv: "template_str env userQuery = Inr question"
  shows "\<exists>k>0. prompts (snd (query_body env documentText userQuery w))
                 = prompts w @ replicate k (build_prompt documentText question)
              \<and> model_ready (snd (query_body env documentText userQuery w))"
proof -
  let ?p = "build_prompt documentText question"
  let ?w0 = "w\<lparr>model_ready := True\<rparr>"
  obtain k where k: "prompts (snd (retry_loop env ?p 3 ?w0)) = prompts ?w0 @ replicate k ?p"
    and pos: "0 < k"
    and m: "model_ready (snd (retry_loop env ?p 3 ?w0)) = model_ready ?w0"
    using retry_loop_prompts [of env ?p 3 ?w0] by auto
  have w: "snd (query_body env documentText userQuery w) = snd (retry_loop env ?p 3 ?w0)"
    unfolding query_body_def ensure_model_ok [OF ready] using conv
    by (simp add: Let_def split: prod.splits sum.splits)
  show ?thesis using k pos m w by auto
qed

lemma process_one_prompts:
  assumes ready: "model_ready w \<or> api_key_set env"
  shows "\<exists>k>0. prompts (snd (process_one env doc (JStr s) w))
                 = prompts w @ replicate k (build_prompt (extractedText doc) s)
              \<and> model_ready (snd (process_one env doc (JStr s) w))"
proof -
  have conv: "template_str env (JStr s) = Inr s" by (simp add: template_str_def)
  have a: "snd (processQueryWithGemini env (extractedText doc) (JStr s) w)
             = snd (query_body env (extractedText doc) (JStr s) w)"
    by (simp add: processQueryWithGemini_def split: prod.splits sum.splits)
  have "prompts (snd (process_one env doc (JStr s) w))
          = prompts (snd (processQueryWithGemini env (extractedText doc) (JStr s) w))"
    and "model_ready (snd (process_one env doc (JStr s) w))
          = model_ready (snd (processQueryWithGemini env (extractedText doc) (JStr s) w))"
    by (simp_all add: process_one_def Let_def split: prod.splits sum.splits option.splits)
  then show ?thesis
    using query_body_prompts [OF ready conv, of "extractedText doc"] a by simp
qed

lemma process_queries_prompts:
  assumes ready: "model_ready w \<or> api_key_set env"
      and strings: "\<forall>q\<in>set qs. is_string q"
  shows "\<exists>new. prompts (snd (process_queries env doc qs acc w)) = prompts w @ new
            \<and> (\<forall>s. JStr s \<in> set qs \<longrightarrow> build_prompt (extractedText doc) s \<in> set new)"
  using ready strings
proof (induction qs arbitrary: acc w)
  case Nil
  then show ?case by simp
next
  case (Cons q qs)
  from Cons.prems(2) obtain s where q: "q = JStr s" by (cases q) auto
  obtain r where r: "fst (process_one env doc q w) = Inr r"
    using process_one_string [of env doc s w] q by auto
  obtain w1 where one: "process_one env doc q w = (Inr r, w1)"
    using r by (cases "process_one env doc q w") auto
  obtain k where k: "0 < k"
    and p1: "prompts w1 = prompts w @ replicate k (build_prompt (extractedText doc) s)"
    and m1: "model_ready w1"
    using process_one_prompts [OF Cons.prems(1), of doc s] one q by auto
  have rest: "\<forall>q\<in>set qs. is_string q" using Cons.prems(2) by simp
  have ready1: "model_ready w1 \<or> api_key_set env" using m1 by simp
  obtain new where new: "prompts (snd (process_queries env doc qs (acc @ [r]) w1)) = prompts w1 @ new"
    and mem: "\<forall>s. JStr s \<in> set qs \<longrightarrow> build_prompt (extractedText doc) s \<in> set new"
    using Cons.IH [OF ready1 rest, of "acc @ [r]"] by auto
  let ?new = "replicate k (build_prompt (extractedText doc) s) @ new"
  have a: "prompts (snd (process_queries env doc (q # qs) acc w)) = prompts w @ ?new"
    using one new p1 by simp
  have b: "\<forall>s'. JStr s' \<in> set (q # qs) \<longrightarrow> build_prompt (extractedText doc) s' \<in> set ?new"
    using mem k q by auto
  show ?case by (rule exI [of _ ?new]) (intro conjI a b)
qed

text \<open>The prompt holds the question, after the words \<open>Question:\<close>.\<close>

lemma build_prompt_question:
  "\<exists>pre post. build_prompt documentText question = pre @ ''Question: '' @ question @ post"
  unfolding build_prompt_def by (metis append.assoc)

text \<open>
  The empty question goes through the provider call like any other, and then always
  ends as a failure entry: either processing throws, or the record with the empty
  \<open>queryText\<close> is rejected when it is saved.
\<close>

lemma empty_question_fails:
  "\<exists>e. fst (process_one env doc (JStr []) w) = Inr (Failure (JStr []) e)"
  by (cases "processQueryWithGemini env (extractedText doc) (JStr []) w")
     (auto simp: process_one_def catch_item_def template_str_def save_record_def
           schema_rejects_def blank_value_def Let_def split: sum.splits)

text \<open>
  Claim C10, as stated, fails for the empty question: it is forwarded to the provider,
  but it cannot yield a success entry. Here the provider answers, the database accepts
  every record that passes the schema, and the entry is still a failure, with the
  validation error of the schema. So it is in every environment: the entry of the
  empty question is a failure entry.
\<close>

theorem empty_question_entry_fails:
  "fst (batch_handler (example_env [(100, Inr plain_text)]) (JStr ''doc1'')
          (JArr [JStr []] []) start)
     = BatchJson ''sky.txt'' [Failure (JStr []) required_message]
   \<and> prompts (snd (batch_handler (example_env [(100, Inr plain_text)]) (JStr ''doc1'')
          (JArr [JStr []] []) start))
     = [build_prompt (extractedText sky_doc) []]
   \<and> (\<forall>env doc w. \<exists>e. fst (process_one env doc (JStr []) w) = Inr (Failure (JStr []) e))"
proof -
  have run: "fst (batch_handler (example_env [(100, Inr plain_text)]) (JStr ''doc1'')
          (JArr [JStr []] []) start)
     = BatchJson ''sky.txt'' [Failure (JStr []) required_message]
   \<and> prompts (snd (batch_handler (example_env [(100, Inr plain_text)]) (JStr ''doc1'')
          (JArr [JStr []] []) start))
     = [build_prompt (extractedText sky_doc) []]"
  by (simp add: batch_handler_def example_store_def process_one_def
      catch_item_def save_record_def schema_rejects_def blank_value_def template_str_def
      processQueryWithGemini_def query_body_def ensure_model_def
      initializeGemini_def example_env_def scripted_def start_def decode_response_def
      numeral_3_eq_3 starts_with_def catch_gemini_def strip_fences.simps js_trim_def js_space_def
      parse_table_def ensure_fields_def bind_err_def text_val_def text_str_def fence_def nl_def
      blue_text_def unsure_text_def four_questions_text_def plain_text_def sky_doc_def
      fallback_response_def obj_get_def js_or_def Let_def)
  have never: "\<forall>env doc w. \<exists>e. fst (process_one env doc (JStr []) w) = Inr (Failure (JStr []) e)"
    by (intro allI) (rule empty_question_fails)
  from run never show ?thesis by simp
qed

text \<open>
  Claim C10, amended. When the model is available, for a batch of 1 to 10 questions,
  each a string, against a document that resolves, the handler answers with a result
  list (no question is rejected as invalid input before the provider call), and for
  every question of the batch, whatever its length, the prompt that holds the
  question is among the prompts sent to the provider during the call. A single
  question that is not empty, also one shorter than 3 characters, yields a success
  entry when the provider answers it with a text that is not empty and does not
  decode and the record of the answer is saved. The empty question never does: its
  entry is a failure entry.
\<close>

theorem batch_forwards_every_question:
  assumes ready: "model_ready w \<or> api_key_set env"
      and doc: "truthy documentId" "findById env documentId = Inr (Some doc)"
      and size: "1 \<le> length qs" "length qs \<le> 10"
      and strings: "\<forall>q\<in>set qs. is_string q"
  shows "(\<exists>results w' new. batch_handler env documentId (JArr qs ps) w
                            = (BatchJson (originalName doc) results, w')
            \<and> prompts w' = prompts w @ new
            \<and> (\<forall>s. JStr s \<in> set qs \<longrightarrow>
                  build_prompt (extractedText doc) s \<in> set new
                  \<and> (\<exists>pre post. build_prompt (extractedText doc) s
                                   = pre @ ''Question: '' @ s @ post)))
         \<and> (\<forall>s lat raw.
               qs = [JStr s] \<and> s \<noteq> [] \<and> raw \<noteq> []
               \<and> generateContent env (length (prompts w))
                    (build_prompt (extractedText doc) s) = (lat, Inr raw)
               \<and> json_parse env (js_trim (strip_fences raw)) = None
               \<and> save_query env
                    \<lparr>q_documentId = doc_id doc, q_queryText = JStr s, q_response = JStr raw,
                     q_confidence = JNum (7 / 10), q_processingTime = int lat\<rparr> = None
               \<longrightarrow> fst (batch_handler env documentId (JArr qs ps) w)
                     = BatchJson (originalName doc) [Success (JStr s) (JStr raw) (JNum (7 / 10))])
         \<and> (qs = [JStr []] \<longrightarrow>
               (\<exists>e. fst (batch_handler env documentId (JArr qs ps) w)
                      = BatchJson (originalName doc) [Failure (JStr []) e]))"
proof (intro conjI allI impI)
  obtain results where run: "fst (process_queries env doc qs [] w) = Inr results"
    using process_queries_entries [OF strings, of env doc "[]" w] by auto
  obtain w' where run': "process_queries env doc qs [] w = (Inr results, w')"
    using run by (cases "process_queries env doc qs [] w") auto
  have h: "batch_handler env documentId (JArr qs ps) w = (BatchJson (originalName doc) results, w')"
    using doc size run' by (auto simp: batch_handler_def)
  obtain new where n1: "prompts w' = prompts w @ new"
    and n2: "\<forall>s. JStr s \<in> set qs \<longrightarrow> build_prompt (extractedText doc) s \<in> set new"
    using process_queries_prompts [OF ready strings, of doc "[]"] run' by auto
  have n3: "\<forall>s. JStr s \<in> set qs \<longrightarrow>
                  build_prompt (extractedText doc) s \<in> set new
                  \<and> (\<exists>pre post. build_prompt (extractedText doc) s
                                   = pre @ ''Question: '' @ s @ post)"
    using n2 build_prompt_question by simp
  show "\<exists>results w' new. batch_handler env documentId (JArr qs ps) w
                            = (BatchJson (originalName doc) results, w')
            \<and> prompts w' = prompts w @ new
            \<and> (\<forall>s. JStr s \<in> set qs \<longrightarrow>
                  build_prompt (extractedText doc) s \<in> set new
                  \<and> (\<exists>pre post. build_prompt (extractedText doc) s
                                   = pre @ ''Question: '' @ s @ post))"
    by (rule exI [of _ results], rule exI [of _ w'], rule exI [of _ new]) (intro conjI h n1 n3)
next
  fix s lat raw
  assume a: "qs = [JStr s] \<and> s \<noteq> [] \<and> raw \<noteq> []
               \<and> generateContent env (length (prompts w))
                    (build_prompt (extractedText doc) s) = (lat, Inr raw)
               \<and> json_parse env (js_trim (strip_fences raw)) = None
               \<and> save_query env
                    \<lparr>q_documentId = doc_id doc, q_queryText = JStr s, q_response = JStr raw,
                     q_confidence = JNum (7 / 10), q_processingTime = int lat\<rparr> = None"
  then have call: "generateContent env (length (prompts w))
                    (build_prompt (extractedText doc) s) = (lat, Inr raw)"
    and parsed: "json_parse env (js_trim (strip_fences raw)) = None"
    and save: "save_query env
                    \<lparr>q_documentId = doc_id doc, q_queryText = JStr s, q_response = JStr raw,
                     q_confidence = JNum (7 / 10), q_processingTime = int lat\<rparr> = None"
    and one: "qs = [JStr s]"
    and ne: "s \<noteq> []" "raw \<noteq> []"
    by auto
  have conv: "template_str env (JStr s) = Inr s" by (simp add: template_str_def)
  obtain w1 where ai: "processQueryWithGemini env (extractedText doc) (JStr s) w =
           (Inr \<lparr>answer = JStr raw, canAnswer = JBool True, confidence = JNum (7 / 10),
                 reasoning = JStr ''Response generated but not in expected JSON format'',
                 processingTime = int lat,
                 tokensUsed = estimateTokens (build_prompt (extractedText doc) s @ raw)\<rparr>,
            w1)"
    using undecodable_text_fallback [OF ready conv call parsed] by blast
  have "fst (process_one env doc (JStr s) w) = Inr (Success (JStr s) (JStr raw) (JNum (7 / 10)))"
    using ne
    by (simp add: process_one_def ai save save_record_def schema_rejects_def blank_value_def
        js_or_def)
  then show "fst (batch_handler env documentId (JArr qs ps) w)
                = BatchJson (originalName doc) [Success (JStr s) (JStr raw) (JNum (7 / 10))]"
    using doc one
    by (cases "process_one env doc (JStr s) w") (simp add: batch_handler_def)
next
  assume one: "qs = [JStr []]"
  obtain e where "fst (process_one env doc (JStr []) w) = Inr (Failure (JStr []) e)"
    using empty_question_fails by blast
  then have "fst (batch_handler env documentId (JArr qs ps) w)
               = BatchJson (originalName doc) [Failure (JStr []) e]"
    using doc one
    by (cases "process_one env doc (JStr []) w") (simp add: batch_handler_def)
  then show "\<exists>e. fst (batch_handler env documentId (JArr qs ps) w)
                  = BatchJson (originalName doc) [Failure (JStr []) e]"
    by (rule exI)
qed

theorem batch_forwards_every_question_witness:
  "(model_ready start \<or> api_key_set (example_env [(100, Inr plain_text)]))
   \<and> truthy (JStr ''doc1'')
   \<and> findById (example_env [(100, Inr plain_text)]) (JStr ''doc1'') = Inr (Some sky_doc)
   \<and> length [JStr ''a''] = 1 \<and> is_string (JStr ''a'') \<and> ''a'' \<noteq> [] \<and> plain_text \<noteq> []
   \<and> length [JStr []] = 1 \<and> is_string (JStr [])
   \<and> generateContent (example_env [(100, Inr plain_text)]) (length (prompts start))
        (build_prompt (extractedText sky_doc) ''a'') = (100, Inr plain_text)
   \<and> json_parse (example_env [(100, Inr plain_text)]) (js_trim (strip_fences plain_text)) = None
   \<and> save_query (example_env [(100, Inr plain_text)])
        \<lparr>q_documentId = doc_id sky_doc, q_queryText = JStr ''a'', q_response = JStr plain_text,
         q_confidence = JNum (7 / 10), q_processingTime = int 100\<rparr> = None
   \<and> (\<exists>results w' new.
          batch_handler (example_env [(100, Inr plain_text)]) (JStr ''doc1'') (JArr [JStr ''a''] []) start
            = (BatchJson (originalName sky_doc) results, w')
          \<and> prompts w' = prompts start @ new
          \<and> build_prompt (extractedText sky_doc) ''a'' \<in> set new
          \<and> (\<exists>pre post. build_prompt (extractedText sky_doc) ''a''
                           = pre @ ''Question: '' @ ''a'' @ post))
   \<and> fst (batch_handler (example_env [(100, Inr plain_text)]) (JStr ''doc1'')
             (JArr [JStr ''a''] []) start)
        = BatchJson (originalName sky_doc) [Success (JStr ''a'') (JStr plain_text) (JNum (7 / 10))]
   \<and> (\<exists>results w' new.
          batch_handler (example_env [(100, Inr plain_text)]) (JStr ''doc1'') (JArr [JStr []] []) start
            = (BatchJson (originalName sky_doc) results, w')
          \<and> prompts w' = prompts start @ new
          \<and> build_prompt (extractedText sky_doc) [] \<in> set new
          \<and> (\<exists>pre post. build_prompt (extractedText sky_doc) []
                           = pre @ ''Question: '' @ [] @ post))
   \<and> (\<exists>e. fst (batch_handler (example_env [(100, Inr plain_text)]) (JStr ''doc1'')
                  (JArr [JStr []] []) start)
             = BatchJson (originalName sky_doc) [Failure (JStr []) e])"
proof -
  let ?env = "example_env [(100, Inr plain_text)]"
  have h1: "model_ready start \<or> api_key_set ?env" by (simp add: example_env_def)
  have h2: "truthy (JStr ''doc1'')" by simp
  have h3: "findById ?env (JStr ''doc1'') = Inr (Some sky_doc)"
    by (simp add: example_env_def example_store_def)
  have a4: "1 \<le> length [JStr ''a'']" and a5: "length [JStr ''a''] \<le> 10"
    and a6: "\<forall>q\<in>set [JStr ''a'']. is_string q" by simp_all
  have e4: "1 \<le> length [JStr []]" and e5: "length [JStr []] \<le> 10"
    and e6: "\<forall>q\<in>set [JStr []]. is_string q" by simp_all
  have h6: "generateContent ?env (length (prompts start))
              (build_prompt (extractedText sky_doc) ''a'') = (100, Inr plain_text)"
    by (simp add: example_env_def scripted_def start_def)
  have clean: "js_trim (strip_fences plain_text) = plain_text" by code_simp
  have h7: "json_parse ?env (js_trim (strip_fences plain_text)) = None"
    unfolding clean
    by (simp add: example_env_def parse_table_def plain_text_def blue_text_def unsure_text_def
        four_questions_text_def)
  have h8: "save_query ?env
        \<lparr>q_documentId = doc_id sky_doc, q_queryText = JStr ''a'', q_response = JStr plain_text,
         q_confidence = JNum (7 / 10), q_processingTime = int 100\<rparr> = None"
    by (simp add: example_env_def)
  have h9: "plain_text \<noteq> []" by (simp add: plain_text_def)
  note one = batch_forwards_every_question [OF h1 h2 h3 a4 a5 a6, of "[]"]
  note none = batch_forwards_every_question [OF h1 h2 h3 e4 e5 e6, of "[]"]
  from one have fwd: "\<exists>results w' new.
          batch_handler ?env (JStr ''doc1'') (JArr [JStr ''a''] []) start
            = (BatchJson (originalName sky_doc) results, w')
          \<and> prompts w' = prompts start @ new
          \<and> build_prompt (extractedText sky_doc) ''a'' \<in> set new
          \<and> (\<exists>pre post. build_prompt (extractedText sky_doc) ''a''
                           = pre @ ''Question: '' @ ''a'' @ post)"
    by simp
  from one h6 h7 h8 h9 have ok: "fst (batch_handler ?env (JStr ''doc1'') (JArr [JStr ''a''] []) start)
        = BatchJson (originalName sky_doc) [Success (JStr ''a'') (JStr plain_text) (JNum (7 / 10))]"
    by blast
  from none have fwd0: "\<exists>results w' new.
          batch_handler ?env (JStr ''doc1'') (JArr [JStr []] []) start
            = (BatchJson (originalName sky_doc) results, w')
          \<and> prompts w' = prompts start @ new
          \<and> build_prompt (extractedText sky_doc) [] \<in> set new
          \<and> (\<exists>pre post. build_prompt (extractedText sky_doc) []
                           = pre @ ''Question: '' @ [] @ post)"
    by simp
  from none have bad: "\<exists>e. fst (batch_handler ?env (JStr ''doc1'') (JArr [JStr []] []) start)
             = BatchJson (originalName sky_doc) [Failure (JStr []) e]"
    by simp
  have triv: "length [JStr ''a''] = 1 \<and> is_string (JStr ''a'') \<and> ''a'' \<noteq> []
               \<and> length [JStr []] = 1 \<and> is_string (JStr [])" by simp
  from h1 h2 h3 h6 h7 h8 h9 triv fwd ok fwd0 bad show ?thesis by (intro conjI) simp_all
qed


end
